theory Spec2Isabelle
  imports Complex_Main "HOL-Library.Multiset"
begin

section \<open>Values of the Python program\<close>

text \<open>
  The program \<^verbatim>\<open>convert.py\<close> works on cells of a table read by pandas, on Python
  strings and on Python numbers.

  \<^item> A Python \<^verbatim>\<open>str\<close> is a \<open>string\<close>; each \<open>char\<close> stands for the code point of the
    same number (0 to 255). Code points above 255 are outside the model.
  \<^item> A Python number that the program computes is a \<open>pynum\<close>: an \<^verbatim>\<open>int\<close> (unbounded) or a
    \<^verbatim>\<open>float\<close>. A float is modelled by the rational number it denotes; rounding to 53 bits,
    infinities and the limit that CPython 3.11 puts on the number of digits \<^verbatim>\<open>int\<close> and
    \<^verbatim>\<open>str\<close> convert are outside the model.
  \<^item> A cell of a row is a \<open>cell\<close>: \<^verbatim>\<open>None\<close>, the missing value \<^verbatim>\<open>nan\<close> of pandas, a
    bool, an int, a finite float, or a string.
  \<^item> An exception is a value of \<open>py_error\<close>, and a function that can raise returns
    \<open>py_error + 'a\<close>.
\<close>

datatype py_error = ValueError | TypeError | IndexError | KeyError

datatype pynum = PInt int | PFloat rat

datatype cell = CNone | CNaN | CBool bool | CInt int | CFloat rat | CStr string

fun num_val :: "pynum \<Rightarrow> rat" where
  "num_val (PInt i) = of_int i"
| "num_val (PFloat r) = r"

text \<open>\<^verbatim>\<open>a + b\<close> and \<^verbatim>\<open>a * b\<close> on numbers: an int only when both operands are ints.\<close>

fun py_add :: "pynum \<Rightarrow> pynum \<Rightarrow> pynum" where
  "py_add (PInt a) (PInt b) = PInt (a + b)"
| "py_add a b = PFloat (num_val a + num_val b)"

fun py_mul :: "pynum \<Rightarrow> pynum \<Rightarrow> pynum" where
  "py_mul (PInt a) (PInt b) = PInt (a * b)"
| "py_mul a b = PFloat (num_val a * num_val b)"

text \<open>\<^verbatim>\<open>max(a, b)\<close> keeps its first argument unless the second is greater.\<close>

definition py_max :: "pynum \<Rightarrow> pynum \<Rightarrow> pynum" where
  "py_max a b = (if num_val b > num_val a then b else a)"

text \<open>\<^verbatim>\<open>pd.isna(value)\<close> on a scalar, and the truth value of a cell in a condition.\<close>

fun pd_isna :: "cell \<Rightarrow> bool" where
  "pd_isna CNone = True"
| "pd_isna CNaN = True"
| "pd_isna _ = False"

fun py_truthy :: "cell \<Rightarrow> bool" where
  "py_truthy CNone = False"
| "py_truthy CNaN = True"
| "py_truthy (CBool b) = b"
| "py_truthy (CInt i) = (i \<noteq> 0)"
| "py_truthy (CFloat r) = (r \<noteq> 0)"
| "py_truthy (CStr s) = (s \<noteq> [])"

section \<open>Strings\<close>

definition is_digit :: "char \<Rightarrow> bool" where
  "is_digit c = (c \<in> set ''0123456789'')"

text \<open>The characters \<^verbatim>\<open>str.strip()\<close> removes (those with \<^verbatim>\<open>isspace()\<close>), below 256.\<close>

definition is_space :: "char \<Rightarrow> bool" where
  "is_space c = ((of_char c :: nat) \<in> set [9, 10, 11, 12, 13, 28, 29, 30, 31, 32, 133, 160])"

definition py_strip :: "string \<Rightarrow> string" where
  "py_strip s = rev (dropWhile is_space (rev (dropWhile is_space s)))"

text \<open>\<^verbatim>\<open>s.replace(c, "")\<close> for a one-character \<^verbatim>\<open>c\<close>.\<close>

definition remove_char :: "char \<Rightarrow> string \<Rightarrow> string" where
  "remove_char c s = filter (\<lambda>x. x \<noteq> c) s"

text \<open>\<^verbatim>\<open>s.lower()\<close>: the letters A to Z, and the capital letters of Latin-1.\<close>

definition lower_char :: "char \<Rightarrow> char" where
  "lower_char c =
     (let n = (of_char c :: nat)
      in if (65 \<le> n \<and> n \<le> 90) \<or> (192 \<le> n \<and> n \<le> 222 \<and> n \<noteq> 215)
         then char_of (n + 32) else c)"

definition py_lower :: "string \<Rightarrow> string" where
  "py_lower s = map lower_char s"

text \<open>\<^verbatim>\<open>a in b\<close> on strings: \<open>a\<close> occurs in \<open>b\<close> as a contiguous block.\<close>

fun starts_with :: "string \<Rightarrow> string \<Rightarrow> bool" where
  "starts_with [] s = True"
| "starts_with (p # ps) [] = False"
| "starts_with (p # ps) (c # cs) = (p = c \<and> starts_with ps cs)"

fun py_in :: "string \<Rightarrow> string \<Rightarrow> bool" where
  "py_in p [] = (p = [])"
| "py_in p (c # cs) = (starts_with p (c # cs) \<or> py_in p cs)"

text \<open>\<^verbatim>\<open>s.split(c)\<close> for a one-character separator: never the empty list.\<close>

fun py_split :: "char \<Rightarrow> string \<Rightarrow> string list" where
  "py_split c [] = [[]]"
| "py_split c (x # xs) =
     (if x = c then [] # py_split c xs
      else (case py_split c xs of
              [] \<Rightarrow> [[x]]
            | w # ws \<Rightarrow> (x # w) # ws))"

text \<open>\<^verbatim>\<open>xs[i]\<close> for \<open>i \<ge> 0\<close>: an \<^verbatim>\<open>IndexError\<close> out of range.\<close>

definition py_index :: "'a list \<Rightarrow> nat \<Rightarrow> py_error + 'a" where
  "py_index xs i = (if i < length xs then Inr (xs ! i) else Inl IndexError)"

text \<open>\<^verbatim>\<open>str(value)\<close>. The text of a float is the shortest one that reads back as the same
  float; the model takes it as the parameter \<open>fs\<close>.\<close>

definition digit_char :: "nat \<Rightarrow> char" where
  "digit_char d = ''0123456789'' ! d"

fun str_nat :: "nat \<Rightarrow> string" where
  "str_nat n = (if n < 10 then [digit_char n] else str_nat (n div 10) @ [digit_char (n mod 10)])"

definition str_int :: "int \<Rightarrow> string" where
  "str_int i = (if i < 0 then CHR ''-'' # str_nat (nat (- i)) else str_nat (nat i))"

fun py_str :: "(rat \<Rightarrow> string) \<Rightarrow> cell \<Rightarrow> string" where
  "py_str fs CNone = ''None''"
| "py_str fs CNaN = ''nan''"
| "py_str fs (CBool b) = (if b then ''True'' else ''False'')"
| "py_str fs (CInt i) = str_int i"
| "py_str fs (CFloat r) = fs r"
| "py_str fs (CStr s) = s"

section \<open>Numeric normalizer\<close>

definition digits_val :: "string \<Rightarrow> nat" where
  "digits_val s = foldl (\<lambda>a c. 10 * a + (of_char c - 48)) 0 s"

text \<open>
  \<^verbatim>\<open>int(s)\<close> and \<^verbatim>\<open>float(s)\<close> on the strings that reach them in
  \<^verbatim>\<open>clean_numeric_value\<close>: digits and decimal points only. \<^verbatim>\<open>int\<close> reads a nonempty
  string of digits; \<^verbatim>\<open>float\<close> reads digits with at most one point and at least one digit.
  Anything else there is a \<^verbatim>\<open>ValueError\<close>.
\<close>

definition py_int :: "string \<Rightarrow> py_error + int" where
  "py_int s = (if s \<noteq> [] \<and> list_all is_digit s then Inr (int (digits_val s)) else Inl ValueError)"

definition py_float :: "string \<Rightarrow> py_error + rat" where
  "py_float s =
     (let ip = takeWhile is_digit s; rest = dropWhile is_digit s
      in case rest of
           [] \<Rightarrow> if ip \<noteq> [] then Inr (of_nat (digits_val ip)) else Inl ValueError
         | d # fp \<Rightarrow>
             if d = CHR ''.'' \<and> list_all is_digit fp \<and> (ip \<noteq> [] \<or> fp \<noteq> [])
             then Inr (of_nat (digits_val (ip @ fp)) / 10 ^ length fp)
             else Inl ValueError)"

text \<open>\<^verbatim>\<open>re.sub(r"[^\d\.]", "", s)\<close>\<close>

definition keep_digits_dots :: "string \<Rightarrow> string" where
  "keep_digits_dots s = filter (\<lambda>c. is_digit c \<or> c = CHR ''.'') s"

text \<open>
  \<^verbatim>\<open>clean_numeric_value(value)\<close>. The body of the \<^verbatim>\<open>try\<close> is \<open>clean_parse\<close>; the
  \<^verbatim>\<open>except (ValueError, TypeError)\<close> clause turns those two errors into 0 and lets any
  other error through.
\<close>

definition clean_parse :: "string \<Rightarrow> py_error + pynum" where
  "clean_parse str_val =
     (if CHR ''.'' \<in> set str_val
      then (case py_float str_val of Inl e \<Rightarrow> Inl e | Inr r \<Rightarrow> Inr (PFloat r))
      else if str_val \<noteq> []
           then (case py_int str_val of Inl e \<Rightarrow> Inl e | Inr i \<Rightarrow> Inr (PInt i))
           else Inr (PInt 0))"

definition clean_numeric_value :: "(rat \<Rightarrow> string) \<Rightarrow> cell \<Rightarrow> py_error + pynum" where
  "clean_numeric_value fs v =
     (if pd_isna v \<or> v = CStr ''-'' \<or> v = CStr '''' then Inr (PInt 0)
      else
        let str_val = py_strip (remove_char (CHR '','') (remove_char (CHR ''*'') (py_str fs v)));
            str_val = keep_digits_dots str_val
        in case clean_parse str_val of
             Inl ValueError \<Rightarrow> Inr (PInt 0)
           | Inl TypeError \<Rightarrow> Inr (PInt 0)
           | Inl e \<Rightarrow> Inl e
           | Inr n \<Rightarrow> Inr n)"

text \<open>
  The normalizer in the words of its description: 0 for an absent, empty or placeholder
  cell; otherwise the text without asterisks, commas and surrounding whitespace, reduced to
  its digits and points, is read as a decimal fraction when it has a point and as an integer
  when it has none (0 when nothing is left); a text with a point that is not a decimal
  fraction gives 0.
\<close>

definition is_decimal :: "string \<Rightarrow> bool" where
  "is_decimal t = (count_list t (CHR ''.'') = 1 \<and> list_ex is_digit t)"

definition decimal_val :: "string \<Rightarrow> rat" where
  "decimal_val t =
     of_nat (digits_val (filter is_digit t)) / 10 ^ length (tl (dropWhile (\<lambda>c. c \<noteq> CHR ''.'') t))"

definition normalize_spec :: "(rat \<Rightarrow> string) \<Rightarrow> cell \<Rightarrow> pynum" where
  "normalize_spec fs v =
     (if pd_isna v \<or> v = CStr '''' \<or> v = CStr ''-'' then PInt 0
      else
        let t = keep_digits_dots (py_strip (remove_char (CHR '','') (remove_char (CHR ''*'') (py_str fs v))))
        in if CHR ''.'' \<in> set t
           then (if is_decimal t then PFloat (decimal_val t) else PInt 0)
           else if t = [] then PInt 0 else PInt (int (digits_val t)))"

section \<open>Era classifier\<close>

text \<open>\<^verbatim>\<open>re.findall(r"\d{4}", s)\<close>: the matches of four digits in a row, found from the left,
  each search starting where the last match ended.\<close>

fun findall_d4 :: "string \<Rightarrow> string list" where
  "findall_d4 (a # b # c # d # rest) =
     (if is_digit a \<and> is_digit b \<and> is_digit c \<and> is_digit d
      then [a, b, c, d] # findall_d4 rest
      else findall_d4 (b # c # d # rest))"
| "findall_d4 _ = []"

text \<open>\<^verbatim>\<open>determine_era(span)\<close>; \<^verbatim>\<open>years[-1]\<close> is read only when \<^verbatim>\<open>years\<close> is not
  empty.\<close>

definition determine_era :: "(rat \<Rightarrow> string) \<Rightarrow> cell \<Rightarrow> py_error + string" where
  "determine_era fs span_cell =
     (if pd_isna span_cell \<or> span_cell = CStr ''-'' then Inr ''Unknown''
      else
        let years = findall_d4 (py_str fs span_cell)
        in if years = [] then Inr ''Unknown''
           else (case py_int (last years) of
                   Inl e \<Rightarrow> Inl e
                 | Inr last_year \<Rightarrow>
                     if last_year \<ge> 2010 then Inr ''Modern''
                     else if last_year \<ge> 1990 then Inr ''Classic''
                     else Inr ''Vintage''))"

text \<open>The classifier in the words of its description: a text has a 4-digit sequence when
  four digits stand in a row somewhere in it; the career-end year is the last match.\<close>

definition has_d4 :: "string \<Rightarrow> bool" where
  "has_d4 s = list_ex (\<lambda>i. i + 4 \<le> length s \<and> list_all is_digit (take 4 (drop i s))) [0..<length s]"

definition end_year :: "string \<Rightarrow> int" where
  "end_year s = int (digits_val (last (findall_d4 s)))"

definition era_of_year :: "int \<Rightarrow> string" where
  "era_of_year y = (if y \<ge> 2010 then ''Modern'' else if y \<ge> 1990 then ''Classic'' else ''Vintage'')"

definition era_spec :: "(rat \<Rightarrow> string) \<Rightarrow> cell \<Rightarrow> string" where
  "era_spec fs span_cell =
     (if pd_isna span_cell \<or> span_cell = CStr ''-'' \<or> \<not> has_d4 (py_str fs span_cell) then ''Unknown''
      else era_of_year (end_year (py_str fs span_cell)))"

section \<open>Country resolver\<close>

definition exclude_teams :: "string list" where
  "exclude_teams = [''Asia'', ''ICC'', ''Afr'', ''Africa'', ''World'', ''Rest'', ''XI'']"

definition country_mapping :: "(string \<times> string) list" where
  "country_mapping =
     [(''SL'', ''Sri Lanka''), (''SA'', ''South Africa''), (''WI'', ''West Indies''),
      (''NZ'', ''New Zealand''), (''AUS'', ''Australia''), (''INDIA'', ''India''),
      (''ENG'', ''England''), (''PAK'', ''Pakistan''), (''BDESH'', ''Bangladesh''),
      (''ZIM'', ''Zimbabwe''), (''AFG'', ''Afghanistan''), (''IRE'', ''Ireland''),
      (''SCOT'', ''Scotland''), (''Neth'', ''Netherlands''), (''UAE'', ''UAE''),
      (''KENYA'', ''Kenya''), (''Can'', ''Canada''), (''Ber'', ''Bermuda''),
      (''USA'', ''USA''), (''Nep'', ''Nepal''), (''HKG'', ''Hong Kong''),
      (''Oman'', ''Oman''), (''PNG'', ''Papua New Guinea''), (''NAM'', ''Namibia'')]"

definition common_patterns :: "(string \<times> string) list" where
  "common_patterns =
     [(''India'', ''India''), (''Australia'', ''Australia''), (''England'', ''England''),
      (''Pakistan'', ''Pakistan''), (''South Africa'', ''South Africa''),
      (''West Indies'', ''West Indies''), (''Sri Lanka'', ''Sri Lanka''),
      (''New Zealand'', ''New Zealand''), (''Bangladesh'', ''Bangladesh''),
      (''Zimbabwe'', ''Zimbabwe'')]"

text \<open>The loop over \<^verbatim>\<open>countries\<close> that fills \<^verbatim>\<open>valid_countries\<close>.\<close>

fun collect_valid :: "string list \<Rightarrow> string list \<Rightarrow> string list" where
  "collect_valid [] valid_countries = valid_countries"
| "collect_valid (country # rest) valid_countries =
     collect_valid rest
       (if country \<notin> set exclude_teams
        then (case map_of country_mapping country of
                Some full \<Rightarrow> valid_countries @ [full]
              | None \<Rightarrow> valid_countries @ [country])
        else valid_countries)"

text \<open>The loop over \<^verbatim>\<open>common_patterns.items()\<close>, in the order the dict was written.\<close>

fun match_patterns :: "(string \<times> string) list \<Rightarrow> string \<Rightarrow> string" where
  "match_patterns [] player_name = ''Unknown''"
| "match_patterns ((pattern, country) # rest) player_name =
     (if py_in (py_lower pattern) (py_lower player_name) then country
      else match_patterns rest player_name)"

definition get_country_from_name :: "string \<Rightarrow> py_error + string" where
  "get_country_from_name player_name =
     (if py_in ''('' player_name \<and> py_in '')'' player_name
      then
        (case py_index (py_split (CHR ''('') player_name) 1 of
           Inl e \<Rightarrow> Inl e
         | Inr after_paren \<Rightarrow>
             (case py_index (py_split (CHR '')'') after_paren) 0 of
                Inl e \<Rightarrow> Inl e
              | Inr country_part \<Rightarrow>
                  let countries = map py_strip (py_split (CHR ''/'') country_part);
                      valid_countries = collect_valid countries []
                  in if valid_countries \<noteq> [] then py_index valid_countries 0
                     else Inr (match_patterns common_patterns player_name)))
      else Inr (match_patterns common_patterns player_name))"

text \<open>The resolver in the words of its description. The parenthesized segment of a name
  that has both parentheses is what stands after its first opening parenthesis, up to the
  next parenthesis of either kind.\<close>

definition has_segment :: "string \<Rightarrow> bool" where
  "has_segment n = (CHR ''('' \<in> set n \<and> CHR '')'' \<in> set n)"

definition segment :: "string \<Rightarrow> string" where
  "segment n =
     takeWhile (\<lambda>c. c \<noteq> CHR ''('' \<and> c \<noteq> CHR '')'') (tl (dropWhile (\<lambda>c. c \<noteq> CHR ''('') n))"

definition tokens :: "string \<Rightarrow> string list" where
  "tokens n = map py_strip (py_split (CHR ''/'') (segment n))"

definition resolve_token :: "string \<Rightarrow> string" where
  "resolve_token t = (case map_of country_mapping t of Some full \<Rightarrow> full | None \<Rightarrow> t)"

definition surviving :: "string \<Rightarrow> string list" where
  "surviving n = filter (\<lambda>t. t \<notin> set exclude_teams) (tokens n)"

definition fallback :: "string \<Rightarrow> string" where
  "fallback n =
     (case filter (\<lambda>(pattern, country). py_in (py_lower pattern) (py_lower n)) common_patterns of
        [] \<Rightarrow> ''Unknown''
      | (pattern, country) # rest \<Rightarrow> country)"

definition country_spec :: "string \<Rightarrow> string" where
  "country_spec n =
     (if has_segment n
      then (case surviving n of t # rest \<Rightarrow> resolve_token t | [] \<Rightarrow> fallback n)
      else fallback n)"

section \<open>Role classifier\<close>

text \<open>\<^verbatim>\<open>d.get(key, default)\<close> on a dict written as a list of its items.\<close>

definition dict_get :: "(string \<times> 'v) list \<Rightarrow> string \<Rightarrow> 'v \<Rightarrow> 'v" where
  "dict_get d k dflt = (case map_of d k of Some v \<Rightarrow> v | None \<Rightarrow> dflt)"

type_synonym stats = "(string \<times> pynum) list"

text \<open>\<^verbatim>\<open>determine_role(batting_stats, bowling_stats, fielding_stats)\<close> on dicts whose
  values are numbers; \<^verbatim>\<open>runs / 100\<close> is the exact quotient.\<close>

definition determine_role :: "stats \<Rightarrow> stats \<Rightarrow> stats \<Rightarrow> string" where
  "determine_role batting_stats bowling_stats fielding_stats =
     (let batting_avg = num_val (dict_get batting_stats ''Ave'' (PInt 0));
          bowling_avg = num_val (dict_get bowling_stats ''Ave'' (PInt 0));
          wickets = num_val (dict_get bowling_stats ''Wkts'' (PInt 0));
          runs = num_val (dict_get batting_stats ''Runs'' (PInt 0));
          dismissals = num_val (dict_get fielding_stats ''Dis'' (PInt 0));
          stumpings = num_val (dict_get fielding_stats ''St'' (PInt 0))
      in if stumpings > 5 \<or> (dismissals > 20 \<and> stumpings > 0) then ''Wicket-keeper''
         else if (runs > 1000 \<and> wickets > 20) \<or>
                 (batting_avg > 25 \<and> bowling_avg > 0 \<and> bowling_avg < 35 \<and> wickets > 10)
              then ''All-rounder''
         else if wickets > runs / 100 \<and> wickets > 50 then ''Bowler''
         else if wickets > 100 then ''Bowler''
         else ''Batsman'')"






section \<open>Record aggregator\<close>

text \<open>
  \<^verbatim>\<open>players_data\<close> maps a player name to the rows of that player, one for each category
  and format; a row is the dict \<^verbatim>\<open>row.to_dict()\<close>, from column names (pairwise distinct)
  to cells, and the empty dict where no row was stored. Python dicts keep the order in which
  their keys were inserted, so \<^verbatim>\<open>players_data\<close> is a list of items.
\<close>

datatype category = Batting | Bowling | Fielding

datatype fmt = ODI | T20 | Test

type_synonym row = "(string \<times> cell) list"

type_synonym player_data = "category \<Rightarrow> fmt \<Rightarrow> row"

type_synonym players_data = "(string \<times> player_data) list"

record player_obj =
  name :: string
  country :: string
  role :: string
  matches :: pynum
  runs :: pynum
  wickets :: pynum
  average :: pynum
  era :: string

text \<open>Sequencing of steps that can raise, and a \<^verbatim>\<open>for\<close> loop over a list that stops at
  the first exception.\<close>

definition and_then :: "py_error + 'a \<Rightarrow> ('a \<Rightarrow> py_error + 'b) \<Rightarrow> py_error + 'b" where
  "and_then m k = (case m of Inl e \<Rightarrow> Inl e | Inr x \<Rightarrow> k x)"

fun py_for :: "'i list \<Rightarrow> ('i \<Rightarrow> 's \<Rightarrow> py_error + 's) \<Rightarrow> 's \<Rightarrow> py_error + 's" where
  "py_for [] body s = Inr s"
| "py_for (i # rest) body s = and_then (body i s) (py_for rest body)"

subsection \<open>Loading the files\<close>

text \<open>The default value of \<^verbatim>\<open>players_data\<close>: nine empty dicts.\<close>

definition new_player :: player_data where
  "new_player = (\<lambda>category format_type. [])"

text \<open>\<^verbatim>\<open>players_data[player_name][category][format_type] = row.to_dict()\<close>: a new name
  goes to the end.\<close>

fun store_row :: "players_data \<Rightarrow> string \<Rightarrow> category \<Rightarrow> fmt \<Rightarrow> row \<Rightarrow> players_data" where
  "store_row [] player_name c f r = [(player_name, new_player(c := (new_player c)(f := r)))]"
| "store_row ((k, d) # rest) player_name c f r =
     (if k = player_name then (k, d(c := (d c)(f := r))) # rest
      else (k, d) # store_row rest player_name c f r)"

definition load_row :: "(rat \<Rightarrow> string) \<Rightarrow> category \<Rightarrow> fmt \<Rightarrow> players_data \<Rightarrow> row \<Rightarrow> players_data" where
  "load_row fs c f pd r =
     (let player_name = py_strip (py_str fs (dict_get r ''Player'' (CStr '''')))
      in if player_name = [] \<or> player_name = ''nan'' then pd
         else store_row pd player_name c f r)"

text \<open>The files are given as the rows of each of the nine tables, \<open>None\<close> for a file that
  does not exist or that \<^verbatim>\<open>read_csv\<close> cannot read.\<close>

definition load_file :: "(rat \<Rightarrow> string) \<Rightarrow> (category \<Rightarrow> fmt \<Rightarrow> row list option) \<Rightarrow> players_data \<Rightarrow> category \<times> fmt \<Rightarrow> players_data" where
  "load_file fs files pd cf =
     (case files (fst cf) (snd cf) of
        None \<Rightarrow> pd
      | Some rows \<Rightarrow> foldl (load_row fs (fst cf) (snd cf)) pd rows)"

definition load_files :: "(rat \<Rightarrow> string) \<Rightarrow> (category \<Rightarrow> fmt \<Rightarrow> row list option) \<Rightarrow> players_data" where
  "load_files fs files =
     foldl (load_file fs files) []
       (concat (map (\<lambda>c. map (\<lambda>f. (c, f)) [ODI, T20, Test]) [Batting, Bowling, Fielding]))"

subsection \<open>Combining the formats of one player\<close>

text \<open>The body of each of the three loops over \<^verbatim>\<open>["Test", "ODI", "T20"]\<close>, on the
  variables the loop updates. \<^verbatim>\<open>not x\<close> on a number holds when it is zero.\<close>

definition batting_step :: "(rat \<Rightarrow> string) \<Rightarrow> row \<Rightarrow> pynum \<times> pynum \<times> pynum \<times> cell \<Rightarrow> py_error + pynum \<times> pynum \<times> pynum \<times> cell" where
  "batting_step fs batting_data acc =
     (case acc of (total_runs, total_matches_batting, batting_avg, span_cell) \<Rightarrow>
        if batting_data \<noteq> [] then
          and_then (clean_numeric_value fs (dict_get batting_data ''Runs'' (CInt 0))) (\<lambda>r.
          and_then (clean_numeric_value fs (dict_get batting_data ''Mat'' (CInt 0))) (\<lambda>m.
          and_then
            (if num_val batting_avg = 0 \<and> py_truthy (dict_get batting_data ''Ave'' CNone)
             then clean_numeric_value fs (dict_get batting_data ''Ave'' (CInt 0))
             else Inr batting_avg) (\<lambda>batting_avg'.
          Inr (py_add total_runs r, py_add total_matches_batting m, batting_avg',
               if \<not> py_truthy span_cell \<and> py_truthy (dict_get batting_data ''Span'' CNone)
               then dict_get batting_data ''Span'' (CStr '''')
               else span_cell))))
        else Inr acc)"

definition bowling_step :: "(rat \<Rightarrow> string) \<Rightarrow> row \<Rightarrow> pynum \<times> pynum \<times> pynum \<Rightarrow> py_error + pynum \<times> pynum \<times> pynum" where
  "bowling_step fs bowling_data acc =
     (case acc of (total_wickets, total_matches_bowling, bowling_avg) \<Rightarrow>
        if bowling_data \<noteq> [] then
          and_then (clean_numeric_value fs (dict_get bowling_data ''Wkts'' (CInt 0))) (\<lambda>w.
          and_then (clean_numeric_value fs (dict_get bowling_data ''Mat'' (CInt 0))) (\<lambda>m.
          and_then
            (if num_val bowling_avg = 0 \<and> py_truthy (dict_get bowling_data ''Ave'' CNone)
             then clean_numeric_value fs (dict_get bowling_data ''Ave'' (CInt 0))
             else Inr bowling_avg) (\<lambda>bowling_avg'.
          Inr (py_add total_wickets w, py_add total_matches_bowling m, bowling_avg'))))
        else Inr acc)"

definition fielding_step :: "(rat \<Rightarrow> string) \<Rightarrow> row \<Rightarrow> pynum \<times> pynum \<Rightarrow> py_error + pynum \<times> pynum" where
  "fielding_step fs fielding_data acc =
     (case acc of (total_dismissals, total_stumpings) \<Rightarrow>
        if fielding_data \<noteq> [] then
          and_then (clean_numeric_value fs (dict_get fielding_data ''Dis'' (CInt 0))) (\<lambda>d.
          and_then (clean_numeric_value fs (dict_get fielding_data ''St'' (CInt 0))) (\<lambda>s.
          Inr (py_add total_dismissals d, py_add total_stumpings s)))
        else Inr acc)"

definition combine_batting :: "(rat \<Rightarrow> string) \<Rightarrow> player_data \<Rightarrow> py_error + pynum \<times> pynum \<times> pynum \<times> cell" where
  "combine_batting fs data =
     py_for [Test, ODI, T20] (\<lambda>f. batting_step fs (data Batting f)) (PInt 0, PInt 0, PInt 0, CStr '''')"

definition combine_bowling :: "(rat \<Rightarrow> string) \<Rightarrow> player_data \<Rightarrow> py_error + pynum \<times> pynum \<times> pynum" where
  "combine_bowling fs data =
     py_for [Test, ODI, T20] (\<lambda>f. bowling_step fs (data Bowling f)) (PInt 0, PInt 0, PInt 0)"

definition combine_fielding :: "(rat \<Rightarrow> string) \<Rightarrow> player_data \<Rightarrow> py_error + pynum \<times> pynum" where
  "combine_fielding fs data =
     py_for [Test, ODI, T20] (\<lambda>f. fielding_step fs (data Fielding f)) (PInt 0, PInt 0)"

subsection \<open>The record of one player\<close>

text \<open>
  The body of the loop over \<^verbatim>\<open>players_data.items()\<close>, inside its \<^verbatim>\<open>try\<close>:
  \<open>Inr None\<close> when the player is skipped by \<^verbatim>\<open>continue\<close>, \<open>Inr (Some obj)\<close> when
  \<^verbatim>\<open>obj\<close> is appended, \<open>Inl e\<close> when an exception reaches the \<^verbatim>\<open>except\<close> clause.
  The dicts handed to \<^verbatim>\<open>determine_role\<close> are written without the entry
  \<^verbatim>\<open>"Span"\<close>, which is no number and which \<^verbatim>\<open>determine_role\<close> never reads.
\<close>

definition process_player :: "(rat \<Rightarrow> string) \<Rightarrow> string \<Rightarrow> player_data \<Rightarrow> py_error + player_obj option" where
  "process_player fs player_name data =
     and_then (combine_batting fs data) (\<lambda>(total_runs, total_matches_batting, batting_avg, span_cell).
     and_then (combine_bowling fs data) (\<lambda>(total_wickets, total_matches_bowling, bowling_avg).
     and_then (combine_fielding fs data) (\<lambda>(total_dismissals, total_stumpings).
       let combined_batting = [(''Runs'', total_runs), (''Mat'', total_matches_batting), (''Ave'', batting_avg)];
           combined_bowling = [(''Wkts'', total_wickets), (''Mat'', total_matches_bowling), (''Ave'', bowling_avg)];
           combined_fielding = [(''Dis'', total_dismissals), (''St'', total_stumpings)];
           total_matches = py_max (dict_get combined_batting ''Mat'' (PInt 0))
                                  (dict_get combined_bowling ''Mat'' (PInt 0))
       in if num_val total_matches < 100 \<or>
             (num_val total_matches = 0 \<and> num_val total_runs = 0 \<and> num_val total_wickets = 0)
          then Inr None
          else
            let role_v = determine_role combined_batting combined_bowling combined_fielding
            in and_then
                 (if py_in ''('' player_name
                  then and_then (py_index (py_split (CHR ''('') player_name) 0) (\<lambda>x. Inr (py_strip x))
                  else Inr player_name) (\<lambda>clean_name.
               and_then (get_country_from_name player_name) (\<lambda>country_v.
               and_then (determine_era fs span_cell) (\<lambda>era_v.
               Inr (Some \<lparr>name = clean_name,
                          country = country_v,
                          role = role_v,
                          matches = total_matches,
                          runs = total_runs,
                          wickets = total_wickets,
                          average = (if num_val batting_avg > 0 then batting_avg
                                     else (if role_v = ''Bowler'' then bowling_avg else PInt 0)),
                          era = era_v\<rparr>)))))))"

text \<open>The loop over the players: a player whose body raises is skipped, as one that is
  filtered out.\<close>

fun convert_players :: "(rat \<Rightarrow> string) \<Rightarrow> players_data \<Rightarrow> player_obj list" where
  "convert_players fs [] = []"
| "convert_players fs ((player_name, data) # rest) =
     (case process_player fs player_name data of
        Inr (Some player) \<Rightarrow> player # convert_players fs rest
      | Inr None \<Rightarrow> convert_players fs rest
      | Inl e \<Rightarrow> convert_players fs rest)"

subsection \<open>The final order\<close>

text \<open>
  \<^verbatim>\<open>final_players.sort(key=..., reverse=True)\<close>. The sort of CPython is stable; with
  \<^verbatim>\<open>reverse=True\<close> it reverses the list, sorts it in ascending order of the keys and
  reverses the result. There is one stable ascending order of a list, so any stable sort
  stands for it: here \<open>sort_key\<close>, on the values of the keys.
\<close>

definition sort_value :: "player_obj \<Rightarrow> rat" where
  "sort_value x = num_val (py_add (runs x) (py_mul (wickets x) (PInt 50)))"

definition py_sort_reverse :: "('a \<Rightarrow> rat) \<Rightarrow> 'a list \<Rightarrow> 'a list" where
  "py_sort_reverse k xs = rev (sort_key k (rev xs))"

definition process_cricket_data :: "(rat \<Rightarrow> string) \<Rightarrow> (category \<Rightarrow> fmt \<Rightarrow> row list option) \<Rightarrow> player_obj list" where
  "process_cricket_data fs files = py_sort_reverse sort_value (convert_players fs (load_files fs files))"

subsection \<open>The merge in the words of its description\<close>

text \<open>
  The formats of a category that are present for a player, in the priority order; the
  cleaned value of a column of a row; the sum of a column over the formats present; and the
  first format present whose row has a property.
\<close>

definition present :: "player_data \<Rightarrow> category \<Rightarrow> fmt list" where
  "present data c = filter (\<lambda>f. data c f \<noteq> []) [Test, ODI, T20]"

definition cleaned :: "(rat \<Rightarrow> string) \<Rightarrow> row \<Rightarrow> string \<Rightarrow> pynum" where
  "cleaned fs r k = normalize_spec fs (dict_get r k (CInt 0))"

definition total_of :: "(rat \<Rightarrow> string) \<Rightarrow> player_data \<Rightarrow> category \<Rightarrow> string \<Rightarrow> pynum" where
  "total_of fs data c k = foldl py_add (PInt 0) (map (\<lambda>f. cleaned fs (data c f) k) (present data c))"

definition first_format :: "(row \<Rightarrow> bool) \<Rightarrow> player_data \<Rightarrow> category \<Rightarrow> fmt option" where
  "first_format P data c =
     (case filter (\<lambda>f. P (data c f)) (present data c) of [] \<Rightarrow> None | f # rest \<Rightarrow> Some f)"

text \<open>A row has a nonzero average when its cell \<^verbatim>\<open>Ave\<close> is true as a condition and
  cleans to a number other than zero; it has a span when its cell \<^verbatim>\<open>Span\<close> is true as
  a condition (the missing value \<^verbatim>\<open>nan\<close> of pandas is).\<close>

definition ave_nonzero :: "(rat \<Rightarrow> string) \<Rightarrow> row \<Rightarrow> bool" where
  "ave_nonzero fs r = (py_truthy (dict_get r ''Ave'' CNone) \<and> num_val (cleaned fs r ''Ave'') \<noteq> 0)"

definition span_truthy :: "row \<Rightarrow> bool" where
  "span_truthy r = py_truthy (dict_get r ''Span'' CNone)"

text \<open>A row gives a span, in the plain sense of the words, when its cell \<^verbatim>\<open>Span\<close> is
  neither absent (\<^verbatim>\<open>None\<close>, \<^verbatim>\<open>nan\<close>) nor the empty string.\<close>

definition span_given :: "row \<Rightarrow> bool" where
  "span_given r = (\<not> pd_isna (dict_get r ''Span'' CNone) \<and> dict_get r ''Span'' CNone \<noteq> CStr '''')"

text \<open>What a loop over a list \<open>L\<close> of formats does to the average and to the span it
  started with.\<close>

definition ave_post :: "(rat \<Rightarrow> string) \<Rightarrow> (fmt \<Rightarrow> row) \<Rightarrow> fmt list \<Rightarrow> pynum \<Rightarrow> pynum \<Rightarrow> bool" where
  "ave_post fs d L a a' =
     (if num_val a \<noteq> 0 then a' = a
      else (case filter (\<lambda>f. ave_nonzero fs (d f)) (filter (\<lambda>f. d f \<noteq> []) L) of
              [] \<Rightarrow> num_val a' = 0
            | f # rest \<Rightarrow> a' = cleaned fs (d f) ''Ave''))"

definition span_post :: "(fmt \<Rightarrow> row) \<Rightarrow> fmt list \<Rightarrow> cell \<Rightarrow> cell \<Rightarrow> bool" where
  "span_post d L s s' =
     (if py_truthy s then s' = s
      else (case filter (\<lambda>f. span_truthy (d f)) (filter (\<lambda>f. d f \<noteq> []) L) of
              [] \<Rightarrow> s' = s
            | f # rest \<Rightarrow> s' = dict_get (d f) ''Span'' CNone))"

text \<open>The inclusion filter in the words of its description.\<close>

definition excluded :: "pynum \<Rightarrow> pynum \<Rightarrow> pynum \<Rightarrow> bool" where
  "excluded total_matches total_runs total_wickets =
     (num_val total_matches < 100 \<or>
      (num_val total_matches = 0 \<and> num_val total_runs = 0 \<and> num_val total_wickets = 0))"

section \<open>Example inputs\<close>

text \<open>A batting row of the player \<^verbatim>\<open>A (AUS)\<close>; a player with that one row, for Test
  matches; a player with a Test row whose span cell is empty and an ODI row; three files
  with the players P, Q and R; and the one file with the one row of the player A.\<close>

definition row_of :: "cell \<Rightarrow> cell \<Rightarrow> cell \<Rightarrow> cell \<Rightarrow> row" where
  "row_of rs mat ave sp =
     [(''Player'', CStr ''A (AUS)''), (''Runs'', rs), (''Mat'', mat), (''Ave'', ave), (''Span'', sp)]"

definition test_only :: "row \<Rightarrow> player_data" where
  "test_only r = (\<lambda>c f. if c = Batting \<and> f = Test then r else [])"

definition two_formats :: player_data where
  "two_formats = (\<lambda>c f.
     if c = Batting \<and> f = Test then row_of (CStr ''5,000'') (CInt 120) (CStr ''45.5'') CNaN
     else if c = Batting \<and> f = ODI then row_of (CInt 3000) (CInt 200) (CStr ''39.2'') (CStr ''2000-2015'')
     else [])"

definition named_row :: "string \<Rightarrow> (string \<times> cell) list \<Rightarrow> row" where
  "named_row n r = (''Player'', CStr n) # r"

definition example_files :: "category \<Rightarrow> fmt \<Rightarrow> row list option" where
  "example_files = (\<lambda>c f.
     if c = Batting \<and> f = Test then
       Some [named_row ''P (AUS)'' [(''Runs'', CInt 5000), (''Mat'', CInt 150)],
             named_row ''Q (SL)'' [(''Runs'', CInt 0), (''Mat'', CInt 150)],
             named_row ''R (INDIA)'' [(''Runs'', CInt 6000), (''Mat'', CInt 150)]]
     else if c = Bowling \<and> f = Test then
       Some [named_row ''Q (SL)'' [(''Wkts'', CInt 100), (''Mat'', CInt 150)]]
     else None)"

definition end_to_end_files :: "category \<Rightarrow> fmt \<Rightarrow> row list option" where
  "end_to_end_files = (\<lambda>c f.
     if c = Batting \<and> f = Test
     then Some [row_of (CInt 5000) (CInt 150) (CFloat (81 / 2)) (CStr ''2000-2015'')]
     else None)"

section \<open>Properties of the numeric normalizer\<close>

lemma not_digit_dot: "\<not> is_digit (CHR ''.'')" "\<not> is_digit (CHR ''*'')" "\<not> is_digit (CHR '','')"
  by (simp_all add: is_digit_def)

lemma space_not_kept: "is_space c \<Longrightarrow> \<not> (is_digit c \<or> c = CHR ''.'')"
  by (auto simp: is_space_def is_digit_def)

lemma filter_dropWhile_disj: "(\<And>x. Q x \<Longrightarrow> \<not> P x) \<Longrightarrow> filter P (dropWhile Q xs) = filter P xs"
  by (induction xs) auto

lemma keep_strip: "keep_digits_dots (py_strip s) = keep_digits_dots s"
  unfolding keep_digits_dots_def py_strip_def
  using space_not_kept by (simp add: filter_dropWhile_disj rev_filter [symmetric])

lemma keep_remove: "\<not> (is_digit c \<or> c = CHR ''.'') \<Longrightarrow> keep_digits_dots (remove_char c s) = keep_digits_dots s"
  unfolding keep_digits_dots_def remove_char_def
  by (induction s) auto

lemma keep_digits_dots_set: "c \<in> set (keep_digits_dots s) \<Longrightarrow> is_digit c \<or> c = CHR ''.''"
  by (auto simp: keep_digits_dots_def)

lemma count_dot_digits: "list_all is_digit xs \<Longrightarrow> count_list xs (CHR ''.'') = 0"
  by (induction xs) (auto simp: not_digit_dot)

lemma all_digit_iff_no_dot:
  "(\<And>c. c \<in> set xs \<Longrightarrow> is_digit c \<or> c = CHR ''.'') \<Longrightarrow> list_all is_digit xs \<longleftrightarrow> count_list xs (CHR ''.'') = 0"
  by (induction xs) (auto simp: not_digit_dot)

lemma list_ex_all_digits: "list_all is_digit xs \<Longrightarrow> list_ex is_digit xs \<longleftrightarrow> xs \<noteq> []"
  by (cases xs) auto

lemma filter_all_digits: "list_all is_digit xs \<Longrightarrow> filter is_digit xs = xs"
  by (induction xs) auto

lemma dropWhile_notdot_digits: "list_all is_digit xs \<Longrightarrow> dropWhile (\<lambda>c. c \<noteq> CHR ''.'') (xs @ CHR ''.'' # ys) = CHR ''.'' # ys"
  by (induction xs) (auto simp: not_digit_dot)

lemma split_at_dot:
  assumes "\<And>c. c \<in> set t \<Longrightarrow> is_digit c \<or> c = CHR ''.''" and "CHR ''.'' \<in> set t"
  shows "dropWhile is_digit t = CHR ''.'' # tl (dropWhile is_digit t)"
proof -
  have "dropWhile is_digit t \<noteq> []"
    using assms(2) not_digit_dot(1) by (auto simp: dropWhile_eq_Nil_conv)
  then obtain d fp where r: "dropWhile is_digit t = d # fp"
    by (cases "dropWhile is_digit t") auto
  have "\<not> is_digit d" using r hd_dropWhile [of is_digit t] by auto
  moreover have "d \<in> set t" using r set_dropWhileD [of d is_digit t] by auto
  ultimately have "d = CHR ''.''" using assms(1) by blast
  with r show ?thesis by simp
qed

lemma py_float_decimal:
  assumes "\<And>c. c \<in> set t \<Longrightarrow> is_digit c \<or> c = CHR ''.''" and "CHR ''.'' \<in> set t"
  shows "py_float t = (if is_decimal t then Inr (decimal_val t) else Inl ValueError)"
proof -
  define ip where "ip = takeWhile is_digit t"
  define fp where "fp = tl (dropWhile is_digit t)"
  have t: "t = ip @ CHR ''.'' # fp"
    using split_at_dot [OF assms] takeWhile_dropWhile_id [of is_digit t]
    by (simp add: ip_def fp_def)
  have ip: "list_all is_digit ip"
    by (auto simp: ip_def list_all_iff dest: set_takeWhileD)
  have fp: "\<And>c. c \<in> set fp \<Longrightarrow> is_digit c \<or> c = CHR ''.''"
    using assms(1) t by auto
  have tw: "takeWhile is_digit t = ip" by (simp add: ip_def)
  have dw: "dropWhile is_digit t = CHR ''.'' # fp"
    using split_at_dot [OF assms] by (simp add: fp_def)
  have cnt: "count_list t (CHR ''.'') = Suc (count_list fp (CHR ''.''))"
    using ip by (simp add: t count_dot_digits)
  have ex: "list_ex is_digit t \<longleftrightarrow> ip \<noteq> [] \<or> list_ex is_digit fp"
    using ip by (auto simp: t not_digit_dot list_ex_all_digits)
  show ?thesis
  proof (cases "list_all is_digit fp")
    case True
    have "filter is_digit t = ip @ fp"
      using ip True by (simp add: t filter_all_digits not_digit_dot)
    moreover have "dropWhile (\<lambda>c. c \<noteq> CHR ''.'') t = CHR ''.'' # fp"
      using ip by (simp add: t dropWhile_notdot_digits)
    ultimately have dv: "decimal_val t = of_nat (digits_val (ip @ fp)) / 10 ^ length fp"
      by (simp add: decimal_val_def)
    have "is_decimal t \<longleftrightarrow> ip \<noteq> [] \<or> fp \<noteq> []"
      using True cnt ex by (simp add: is_decimal_def count_dot_digits list_ex_all_digits)
    then show ?thesis
      using True dv by (simp add: py_float_def tw dw)
  next
    case False
    then have "count_list fp (CHR ''.'') \<noteq> 0"
      using all_digit_iff_no_dot [of fp] fp by blast
    then have "\<not> is_decimal t" using cnt by (simp add: is_decimal_def)
    then show ?thesis using False by (simp add: py_float_def tw dw)
  qed
qed

lemma py_int_digits:
  assumes "\<And>c. c \<in> set t \<Longrightarrow> is_digit c \<or> c = CHR ''.''" and "CHR ''.'' \<notin> set t" and "t \<noteq> []"
  shows "py_int t = Inr (int (digits_val t))"
proof -
  have "list_all is_digit t" using assms(1,2) by (auto simp: list_all_iff)
  then show ?thesis using assms(3) by (simp add: py_int_def)
qed

lemma digits_val_Nil: "digits_val [] = 0"
  by (simp add: digits_val_def)

lemma clean_parse_kept:
  assumes "\<And>c. c \<in> set t \<Longrightarrow> is_digit c \<or> c = CHR ''.''"
  shows "clean_parse t =
     (if CHR ''.'' \<in> set t
      then (if is_decimal t then Inr (PFloat (decimal_val t)) else Inl ValueError)
      else Inr (PInt (int (digits_val t))))"
proof (cases "CHR ''.'' \<in> set t")
  case True
  then show ?thesis using py_float_decimal [OF assms True] by (simp add: clean_parse_def)
next
  case False
  show ?thesis
  proof (cases "t = []")
    case True
    then show ?thesis by (simp add: clean_parse_def digits_val_Nil)
  next
    case nonempty: False
    show ?thesis using False nonempty py_int_digits [OF assms False nonempty]
      by (simp add: clean_parse_def)
  qed
qed

lemma clean_numeric_value_eq: "clean_numeric_value fs v = Inr (normalize_spec fs v)"
proof (cases "pd_isna v \<or> v = CStr ''-'' \<or> v = CStr ''''")
  case True
  then show ?thesis by (auto simp: clean_numeric_value_def normalize_spec_def)
next
  case False
  define t where "t = keep_digits_dots (py_strip (remove_char (CHR '','') (remove_char (CHR ''*'') (py_str fs v))))"
  have k: "\<And>c. c \<in> set t \<Longrightarrow> is_digit c \<or> c = CHR ''.''"
    unfolding t_def by (rule keep_digits_dots_set)
  show ?thesis
    using False clean_parse_kept [OF k]
    by (simp add: clean_numeric_value_def normalize_spec_def t_def [symmetric] Let_def digits_val_Nil)
qed

lemma keep_digits_dots_simplify:
  "keep_digits_dots (py_strip (remove_char (CHR '','') (remove_char (CHR ''*'') s))) = keep_digits_dots s"
  by (simp add: keep_strip keep_remove is_digit_def)

lemma normalize_spec_nonneg: "0 \<le> num_val (normalize_spec fs v)"
  by (simp add: normalize_spec_def Let_def decimal_val_def)

lemma clean_numeric_value_examples:
  "clean_numeric_value fs (CStr ''1,234'') = Inr (PInt 1234)"
  "clean_numeric_value fs (CStr ''50.25*'') = Inr (PFloat (201 / 4))"
  "clean_numeric_value fs (CStr ''abc'') = Inr (PInt 0)"
  "clean_numeric_value fs (CStr ''-5'') = Inr (PInt 5)"
  "clean_numeric_value fs (CStr ''-5.5'') = Inr (PFloat (11 / 2))"
  "clean_numeric_value fs (CInt (- 5)) = Inr (PInt 5)"
  by (simp_all add: clean_numeric_value_def py_strip_def remove_char_def keep_digits_dots_def
      is_digit_def is_space_def clean_parse_def py_float_def py_int_def digits_val_def
      str_int_def digit_char_def)

text \<open>
  C6: \<^verbatim>\<open>clean_numeric_value\<close> returns on every cell and never raises. It gives 0 for an
  absent cell (\<^verbatim>\<open>None\<close>, \<^verbatim>\<open>nan\<close>), for the empty string and for \<^verbatim>\<open>"-"\<close>; otherwise
  it drops asterisks, commas and surrounding whitespace from the text of the cell, keeps the
  digits and points only, and reads what is left as a decimal fraction when it has a point
  and as an integer when it has none (0 when nothing is left); a text that cannot be read
  gives 0. So \<^verbatim>\<open>"1,234"\<close> gives 1234, \<^verbatim>\<open>"50.25*"\<close> gives 50.25, \<^verbatim>\<open>"abc"\<close> gives 0 and
  \<^verbatim>\<open>None\<close> gives 0.
\<close>

theorem clean_numeric_value_total:
  "clean_numeric_value fs v = Inr (normalize_spec fs v)
   \<and> (\<forall>e. clean_numeric_value fs v \<noteq> Inl e)
   \<and> clean_numeric_value fs CNone = Inr (PInt 0)
   \<and> clean_numeric_value fs CNaN = Inr (PInt 0)
   \<and> clean_numeric_value fs (CStr '''') = Inr (PInt 0)
   \<and> clean_numeric_value fs (CStr ''-'') = Inr (PInt 0)
   \<and> clean_numeric_value fs (CStr ''1,234'') = Inr (PInt 1234)
   \<and> clean_numeric_value fs (CStr ''50.25*'') = Inr (PFloat (201 / 4))
   \<and> clean_numeric_value fs (CStr ''abc'') = Inr (PInt 0)"
proof -
  have "clean_numeric_value fs CNone = Inr (PInt 0)"
    and "clean_numeric_value fs CNaN = Inr (PInt 0)"
    and "clean_numeric_value fs (CStr '''') = Inr (PInt 0)"
    and "clean_numeric_value fs (CStr ''-'') = Inr (PInt 0)"
    by (simp_all add: clean_numeric_value_def)
  moreover have "clean_numeric_value fs v = Inr (normalize_spec fs v)"
    by (rule clean_numeric_value_eq)
  moreover have "\<forall>e. clean_numeric_value fs v \<noteq> Inl e"
    by (simp add: clean_numeric_value_eq)
  ultimately show ?thesis
    using clean_numeric_value_examples(1,2,3) [of fs] by blast
qed

theorem clean_numeric_value_total_witness:
  "clean_numeric_value (\<lambda>r. ''40.5'') (CFloat (81 / 2)) = Inr (PFloat (81 / 2))"
proof -
  have "clean_numeric_value (\<lambda>r. ''40.5'') (CFloat (81 / 2))
        = Inr (normalize_spec (\<lambda>r. ''40.5'') (CFloat (81 / 2)))"
    using clean_numeric_value_total [of "\<lambda>r. ''40.5''" "CFloat (81 / 2)"] by blast
  also have "normalize_spec (\<lambda>r. ''40.5'') (CFloat (81 / 2)) = PFloat (81 / 2)"
    by (simp add: normalize_spec_def py_strip_def remove_char_def keep_digits_dots_def
        is_digit_def is_space_def is_decimal_def decimal_val_def digits_val_def)
  finally show ?thesis .
qed

text \<open>
  C9: on every cell \<^verbatim>\<open>clean_numeric_value\<close> returns a number that is not negative. A
  minus sign is removed with every other character that is neither a digit nor a point:
  the string \<^verbatim>\<open>"-5"\<close> and the integer -5 both give 5.
\<close>

theorem clean_numeric_value_nonneg:
  "(\<exists>n. clean_numeric_value fs v = Inr n \<and> 0 \<le> num_val n)
   \<and> clean_numeric_value fs (CStr ''-5'') = Inr (PInt 5)
   \<and> clean_numeric_value fs (CStr ''-5.5'') = Inr (PFloat (11 / 2))
   \<and> clean_numeric_value fs (CInt (- 5)) = Inr (PInt 5)"
proof -
  have "\<exists>n. clean_numeric_value fs v = Inr n \<and> 0 \<le> num_val n"
    using normalize_spec_nonneg [of fs v] by (simp add: clean_numeric_value_eq)
  then show ?thesis
    using clean_numeric_value_examples(4,5,6) [of fs] by blast
qed

theorem clean_numeric_value_nonneg_witness:
  "\<exists>n. clean_numeric_value (\<lambda>r. ''-2.5'') (CFloat (- 5 / 2)) = Inr n \<and> 0 \<le> num_val n"
  using clean_numeric_value_nonneg [of "\<lambda>r. ''-2.5''" "CFloat (- 5 / 2)"] by blast

section \<open>Properties of the role classifier\<close>





section \<open>Properties of the era classifier\<close>

lemma has_d4_iff: "has_d4 s \<longleftrightarrow> (\<exists>i. i + 4 \<le> length s \<and> list_all is_digit (take 4 (drop i s)))"
  by (auto simp: has_d4_def list_ex_iff)

lemma has_d4_short: "length s < 4 \<Longrightarrow> \<not> has_d4 s"
  by (auto simp: has_d4_iff)

lemma has_d4_Cons:
  "has_d4 (x # xs) \<longleftrightarrow> (4 \<le> length (x # xs) \<and> list_all is_digit (take 4 (x # xs))) \<or> has_d4 xs"
proof
  assume "has_d4 (x # xs)"
  then obtain i where i: "i + 4 \<le> length (x # xs)" "list_all is_digit (take 4 (drop i (x # xs)))"
    by (auto simp: has_d4_iff)
  show "(4 \<le> length (x # xs) \<and> list_all is_digit (take 4 (x # xs))) \<or> has_d4 xs"
  proof (cases i)
    case 0
    with i show ?thesis by simp
  next
    case (Suc j)
    with i have "j + 4 \<le> length xs \<and> list_all is_digit (take 4 (drop j xs))" by simp
    then show ?thesis by (auto simp: has_d4_iff)
  qed
next
  assume r: "(4 \<le> length (x # xs) \<and> list_all is_digit (take 4 (x # xs))) \<or> has_d4 xs"
  show "has_d4 (x # xs)"
  proof (cases "has_d4 xs")
    case True
    then obtain j where "j + 4 \<le> length xs" "list_all is_digit (take 4 (drop j xs))"
      by (auto simp: has_d4_iff)
    then have "Suc j + 4 \<le> length (x # xs) \<and> list_all is_digit (take 4 (drop (Suc j) (x # xs)))"
      by simp
    then show ?thesis unfolding has_d4_iff by blast
  next
    case False
    with r have "0 + 4 \<le> length (x # xs) \<and> list_all is_digit (take 4 (drop 0 (x # xs)))" by simp
    then show ?thesis unfolding has_d4_iff by blast
  qed
qed

lemma take4: "take 4 (a # b # c # d # rest) = [a, b, c, d]"
  by (simp add: numeral_eq_Suc)

lemma findall_d4_Nil_iff: "findall_d4 s = [] \<longleftrightarrow> \<not> has_d4 s"
proof (induction s rule: findall_d4.induct)
  case (1 a b c d rest)
  show ?case
  proof (cases "is_digit a \<and> is_digit b \<and> is_digit c \<and> is_digit d")
    case True
    then show ?thesis by (simp add: has_d4_Cons [of a] take4)
  next
    case False
    then have e1: "findall_d4 (a # b # c # d # rest) = findall_d4 (b # c # d # rest)" by auto
    have e2: "has_d4 (a # b # c # d # rest) \<longleftrightarrow> has_d4 (b # c # d # rest)"
      using False by (auto simp: has_d4_Cons [of a] take4)
    have ih: "findall_d4 (b # c # d # rest) = [] \<longleftrightarrow> \<not> has_d4 (b # c # d # rest)"
      using 1 False by blast
    show ?thesis unfolding e1 e2 by (rule ih)
  qed
qed (simp_all add: has_d4_short)

lemma findall_d4_digits: "y \<in> set (findall_d4 s) \<Longrightarrow> y \<noteq> [] \<and> list_all is_digit y"
  by (induction s rule: findall_d4.induct) (auto split: if_splits)

lemma determine_era_eq: "determine_era fs span_cell = Inr (era_spec fs span_cell)"
proof (cases "pd_isna span_cell \<or> span_cell = CStr ''-'' \<or> findall_d4 (py_str fs span_cell) = []")
  case True
  then show ?thesis
    by (auto simp: determine_era_def era_spec_def findall_d4_Nil_iff)
next
  case False
  then have "last (findall_d4 (py_str fs span_cell)) \<in> set (findall_d4 (py_str fs span_cell))"
    by simp
  then have "py_int (last (findall_d4 (py_str fs span_cell)))
      = Inr (end_year (py_str fs span_cell))"
    using findall_d4_digits by (simp add: py_int_def end_year_def)
  then show ?thesis
    using False by (simp add: determine_era_def era_spec_def findall_d4_Nil_iff era_of_year_def Let_def)
qed

lemma era_of_year_iff:
  "era_of_year y = ''Modern'' \<longleftrightarrow> y \<ge> 2010"
  "era_of_year y = ''Classic'' \<longleftrightarrow> 1990 \<le> y \<and> y < 2010"
  "era_of_year y = ''Vintage'' \<longleftrightarrow> y < 1990"
  by (auto simp: era_of_year_def)

lemma determine_era_examples:
  "determine_era fs (CStr ''X-2010'') = Inr ''Modern''"
  "determine_era fs (CStr ''X-1990'') = Inr ''Classic''"
  "determine_era fs (CStr ''2008-2023'') = Inr ''Modern''"
  "determine_era fs (CStr ''1985-1999'') = Inr ''Classic''"
  "determine_era fs (CStr ''1970-1989'') = Inr ''Vintage''"
  "determine_era fs (CStr ''-'') = Inr ''Unknown''"
  "determine_era fs (CStr '''') = Inr ''Unknown''"
  "determine_era fs CNaN = Inr ''Unknown''"
  by (simp_all add: determine_era_def is_digit_def py_int_def digits_val_def)

text \<open>
  C5: \<^verbatim>\<open>determine_era\<close> returns and never raises. It gives Unknown when the span is absent
  (\<^verbatim>\<open>None\<close>, \<^verbatim>\<open>nan\<close>), is the placeholder \<^verbatim>\<open>"-"\<close>, or has no four digits in a row in
  its text. Otherwise the career-end year is the last match of four digits (the matches are
  found from the left and do not overlap), and the result is Modern exactly when that year
  is at least 2010, Classic exactly when it is at least 1990 and below 2010, Vintage exactly
  when it is below 1990. So \<^verbatim>\<open>"X-2010"\<close> is Modern and \<^verbatim>\<open>"X-1990"\<close> is Classic.
\<close>

theorem determine_era_classifies:
  "determine_era fs span_cell = Inr (era_spec fs span_cell)
   \<and> (pd_isna span_cell \<or> span_cell = CStr ''-'' \<or> \<not> has_d4 (py_str fs span_cell)
        \<longrightarrow> determine_era fs span_cell = Inr ''Unknown'')
   \<and> (\<not> pd_isna span_cell \<and> span_cell \<noteq> CStr ''-'' \<and> has_d4 (py_str fs span_cell) \<longrightarrow>
        (determine_era fs span_cell = Inr ''Modern'' \<longleftrightarrow> end_year (py_str fs span_cell) \<ge> 2010)
      \<and> (determine_era fs span_cell = Inr ''Classic'' \<longleftrightarrow>
            1990 \<le> end_year (py_str fs span_cell) \<and> end_year (py_str fs span_cell) < 2010)
      \<and> (determine_era fs span_cell = Inr ''Vintage'' \<longleftrightarrow> end_year (py_str fs span_cell) < 1990))
   \<and> determine_era fs (CStr ''X-2010'') = Inr ''Modern''
   \<and> determine_era fs (CStr ''X-1990'') = Inr ''Classic''"
proof -
  have u: "pd_isna span_cell \<or> span_cell = CStr ''-'' \<or> \<not> has_d4 (py_str fs span_cell)
        \<longrightarrow> determine_era fs span_cell = Inr ''Unknown''"
    by (auto simp: determine_era_eq era_spec_def)
  have k: "\<not> pd_isna span_cell \<and> span_cell \<noteq> CStr ''-'' \<and> has_d4 (py_str fs span_cell) \<longrightarrow>
        (determine_era fs span_cell = Inr ''Modern'' \<longleftrightarrow> end_year (py_str fs span_cell) \<ge> 2010)
      \<and> (determine_era fs span_cell = Inr ''Classic'' \<longleftrightarrow>
            1990 \<le> end_year (py_str fs span_cell) \<and> end_year (py_str fs span_cell) < 2010)
      \<and> (determine_era fs span_cell = Inr ''Vintage'' \<longleftrightarrow> end_year (py_str fs span_cell) < 1990)"
    by (simp add: determine_era_eq era_spec_def era_of_year_iff)
  show ?thesis
    using u k determine_era_eq [of fs span_cell] determine_era_examples(1,2) [of fs] by blast
qed

theorem determine_era_classifies_witness:
  "\<not> pd_isna (CStr ''1999-2011'') \<and> CStr ''1999-2011'' \<noteq> CStr ''-''
   \<and> has_d4 (py_str (\<lambda>r. []) (CStr ''1999-2011''))
   \<and> end_year (py_str (\<lambda>r. []) (CStr ''1999-2011'')) = 2011
   \<and> determine_era (\<lambda>r. []) (CStr ''1999-2011'') = Inr ''Modern''"
proof -
  have "findall_d4 ''1999-2011'' \<noteq> []"
    by (simp add: is_digit_def)
  then have h: "has_d4 (py_str (\<lambda>r. []) (CStr ''1999-2011''))"
    using findall_d4_Nil_iff [of "''1999-2011''"] by simp
  have e: "end_year (py_str (\<lambda>r. []) (CStr ''1999-2011'')) = 2011"
    by (simp add: end_year_def is_digit_def digits_val_def)
  have n: "\<not> pd_isna (CStr ''1999-2011'') \<and> CStr ''1999-2011'' \<noteq> CStr ''-''"
    by simp
  have "determine_era (\<lambda>r. []) (CStr ''1999-2011'') = Inr ''Modern''
        \<longleftrightarrow> end_year (py_str (\<lambda>r. []) (CStr ''1999-2011'')) \<ge> 2010"
    using determine_era_classifies [of "\<lambda>r. []" "CStr ''1999-2011''"] h n by blast
  then have "determine_era (\<lambda>r. []) (CStr ''1999-2011'') = Inr ''Modern''"
    using e by simp
  then show ?thesis using h e by simp
qed

section \<open>Properties of the country resolver\<close>

lemma starts_with_single: "starts_with [c] s \<longleftrightarrow> (s \<noteq> [] \<and> hd s = c)"
  by (cases s) auto

lemma py_in_single: "py_in [c] s \<longleftrightarrow> c \<in> set s"
  by (induction s) auto

lemma py_split_not_Nil: "py_split c s \<noteq> []"
  by (induction s) (auto split: list.splits)

lemma py_split_hd: "hd (py_split c s) = takeWhile (\<lambda>x. x \<noteq> c) s"
  by (induction s) (auto split: list.splits simp: py_split_not_Nil)

lemma py_split_tl: "c \<in> set s \<Longrightarrow> tl (py_split c s) = py_split c (tl (dropWhile (\<lambda>x. x \<noteq> c) s))"
  by (induction s) (auto split: list.splits simp: py_split_not_Nil)

lemma py_index_0: "xs \<noteq> [] \<Longrightarrow> py_index xs 0 = Inr (hd xs)"
  by (cases xs) (simp_all add: py_index_def)

lemma py_index_1: "tl xs \<noteq> [] \<Longrightarrow> py_index xs (Suc 0) = Inr (hd (tl xs))"
  by (cases xs; cases "tl xs") (auto simp: py_index_def)

lemma py_split_index_0: "py_index (py_split c s) 0 = Inr (takeWhile (\<lambda>x. x \<noteq> c) s)"
  by (simp add: py_index_0 py_split_not_Nil py_split_hd)

lemma py_split_index_1:
  "c \<in> set s \<Longrightarrow>
   py_index (py_split c s) (Suc 0) = Inr (takeWhile (\<lambda>x. x \<noteq> c) (tl (dropWhile (\<lambda>x. x \<noteq> c) s)))"
  by (simp add: py_index_1 py_split_tl py_split_not_Nil py_split_hd)

lemma takeWhile_twice: "takeWhile P (takeWhile Q xs) = takeWhile (\<lambda>x. Q x \<and> P x) xs"
  by (induction xs) auto

lemma collect_valid_eq:
  "collect_valid ts acc = acc @ map resolve_token (filter (\<lambda>t. t \<notin> set exclude_teams) ts)"
  by (induction ts arbitrary: acc) (auto simp: resolve_token_def split: option.splits)

lemma match_patterns_eq:
  "match_patterns ps n =
     (case filter (\<lambda>(pattern, full). py_in (py_lower pattern) (py_lower n)) ps of
        [] \<Rightarrow> ''Unknown''
      | (pattern, full) # rest \<Rightarrow> full)"
  by (induction ps n rule: match_patterns.induct) auto

lemma get_country_from_name_eq: "get_country_from_name n = Inr (country_spec n)"
proof (cases "has_segment n")
  case False
  then show ?thesis
    by (auto simp: get_country_from_name_def country_spec_def has_segment_def py_in_single
        fallback_def match_patterns_eq)
next
  case True
  then have o: "CHR ''('' \<in> set n" and c: "CHR '')'' \<in> set n"
    by (simp_all add: has_segment_def)
  have seg: "takeWhile (\<lambda>x. x \<noteq> CHR '')'') (takeWhile (\<lambda>x. x \<noteq> CHR ''('') (tl (dropWhile (\<lambda>x. x \<noteq> CHR ''('') n)))
      = segment n"
    by (simp add: segment_def takeWhile_twice)
  have cv: "collect_valid (tokens n) [] = map resolve_token (surviving n)"
    by (simp add: collect_valid_eq surviving_def)
  show ?thesis
  proof (cases "surviving n")
    case Nil
    then show ?thesis
      using True o c
      by (simp add: get_country_from_name_def country_spec_def py_in_single py_split_index_1
          py_split_index_0 seg tokens_def [symmetric] cv fallback_def match_patterns_eq Let_def)
  next
    case (Cons t rest)
    then show ?thesis
      using True o c
      by (simp add: get_country_from_name_def country_spec_def py_in_single py_split_index_1
          py_split_index_0 seg tokens_def [symmetric] cv py_index_0 Let_def)
  qed
qed

lemma country_examples:
  "get_country_from_name ''Player (Asia/SL)'' = Inr ''Sri Lanka''"
  "get_country_from_name ''Someone (XI)'' = Inr ''Unknown''"
  "get_country_from_name ''Sachin Tendulkar (INDIA)'' = Inr ''India''"
  "get_country_from_name ''No Parens Australia Batsman'' = Inr ''Australia''"
  "get_country_from_name ''X (Aus)'' = Inr ''Aus''"
  "get_country_from_name ''X (aus)'' = Inr ''aus''"
  "get_country_from_name ''X (AUS)'' = Inr ''Australia''"
  "get_country_from_name ''x of AUSTRALIA'' = Inr ''Australia''"
  "get_country_from_name ''Player ()'' = Inr []"
  by code_simp+


lemma codes_lower_distinct: "distinct (map (\<lambda>p. py_lower (fst p)) country_mapping)"
  by code_simp

lemma codes_lower_not_excluded:
  "list_all (\<lambda>e. py_lower e \<notin> set (map (\<lambda>p. py_lower (fst p)) country_mapping)) exclude_teams"
  by code_simp

lemma case_variant_unmapped:
  assumes "(c, full) \<in> set country_mapping" and "py_lower t = py_lower c" and "t \<noteq> c"
  shows "map_of country_mapping t = None" and "t \<notin> set exclude_teams"
proof -
  have inj: "inj_on (\<lambda>p. py_lower (fst p)) (set country_mapping)"
    using codes_lower_distinct by (simp add: distinct_map)
  show "map_of country_mapping t = None"
  proof (rule ccontr)
    assume "map_of country_mapping t \<noteq> None"
    then obtain full' where "(t, full') \<in> set country_mapping"
      by (auto dest: map_of_SomeD)
    with assms(1,2) have "(t, full') = (c, full)"
      using inj_onD [OF inj, of "(t, full')" "(c, full)"] by simp
    with assms(3) show False by simp
  qed
  show "t \<notin> set exclude_teams"
  proof
    assume "t \<in> set exclude_teams"
    then have "py_lower t \<notin> set (map (\<lambda>p. py_lower (fst p)) country_mapping)"
      using codes_lower_not_excluded by (simp add: list_all_iff)
    moreover have "py_lower c \<in> set (map (\<lambda>p. py_lower (fst p)) country_mapping)"
      using assms(1) by force
    ultimately show False using assms(2) by simp
  qed
qed

lemma fallback_lower: "py_lower n = py_lower n' \<Longrightarrow> fallback n = fallback n'"
  by (simp add: fallback_def)

lemma segment_wellformed:
  assumes "CHR ''('' \<notin> set pre" and "CHR ''('' \<notin> set mid" and "CHR '')'' \<notin> set mid"
  shows "segment (pre @ ''('' @ mid @ '')'' @ post) = mid"
proof -
  have "dropWhile (\<lambda>c. c \<noteq> CHR ''('') (pre @ ''('' @ mid @ '')'' @ post) = ''('' @ mid @ '')'' @ post"
    using assms(1) by (induction pre) auto
  moreover have "takeWhile (\<lambda>c. c \<noteq> CHR ''('' \<and> c \<noteq> CHR '')'') (mid @ '')'' @ post) = mid"
    using assms(2,3) by (induction mid) auto
  ultimately show ?thesis by (simp add: segment_def)
qed

text \<open>
  C4: \<^verbatim>\<open>get_country_from_name\<close> returns and never raises. On a name with a parenthesized
  segment it splits the segment at \<^verbatim>\<open>/\<close> into tokens without surrounding whitespace, drops
  the tokens of the exclusion set, and returns the first token that is left, as the full
  country name when the token is a code of the table and as it stands otherwise. With no
  such segment, or with no token left, it returns the first of the ten known country names
  that occurs in the name, letter case ignored, and Unknown when none does. A name counts as
  having a segment when it has both parenthesis characters; in a name with an opening
  parenthesis followed by a closing one the segment is the text between the two.
\<close>

theorem get_country_from_name_resolves:
  "get_country_from_name n = Inr (country_spec n)
   \<and> (CHR ''('' \<notin> set pre \<and> CHR ''('' \<notin> set mid \<and> CHR '')'' \<notin> set mid \<longrightarrow>
        has_segment (pre @ ''('' @ mid @ '')'' @ post)
        \<and> segment (pre @ ''('' @ mid @ '')'' @ post) = mid)
   \<and> get_country_from_name ''Player (Asia/SL)'' = Inr ''Sri Lanka''
   \<and> get_country_from_name ''Someone (XI)'' = Inr ''Unknown''
   \<and> get_country_from_name ''Sachin Tendulkar (INDIA)'' = Inr ''India''
   \<and> get_country_from_name ''No Parens Australia Batsman'' = Inr ''Australia''"
proof -
  have "CHR ''('' \<notin> set pre \<and> CHR ''('' \<notin> set mid \<and> CHR '')'' \<notin> set mid \<longrightarrow>
        has_segment (pre @ ''('' @ mid @ '')'' @ post)
        \<and> segment (pre @ ''('' @ mid @ '')'' @ post) = mid"
    using segment_wellformed [of pre mid post] by (simp add: has_segment_def)
  then show ?thesis
    using get_country_from_name_eq [of n] country_examples(1,2,3,4) by blast
qed

theorem get_country_from_name_resolves_witness:
  "CHR ''('' \<notin> set ''Sachin Tendulkar '' \<and> CHR ''('' \<notin> set ''INDIA'' \<and> CHR '')'' \<notin> set ''INDIA''
   \<and> segment ''Sachin Tendulkar (INDIA)'' = ''INDIA''
   \<and> country_spec ''Sachin Tendulkar (INDIA)'' = ''India''"
proof -
  note t = get_country_from_name_resolves [of "''Sachin Tendulkar (INDIA)''" "''Sachin Tendulkar ''" "''INDIA''" "[]"]
  have a: "get_country_from_name ''Sachin Tendulkar (INDIA)'' = Inr (country_spec ''Sachin Tendulkar (INDIA)'')"
    using t by blast
  have b: "get_country_from_name ''Sachin Tendulkar (INDIA)'' = Inr ''India''"
    using t by blast
  have c: "country_spec ''Sachin Tendulkar (INDIA)'' = ''India''"
    using a b by simp
  have h: "CHR ''('' \<notin> set ''Sachin Tendulkar '' \<and> CHR ''('' \<notin> set ''INDIA'' \<and> CHR '')'' \<notin> set ''INDIA''"
    by simp
  have "segment (''Sachin Tendulkar '' @ ''('' @ ''INDIA'' @ '')'' @ []) = ''INDIA''"
    using t h by blast
  then show ?thesis using c h by simp
qed

lemma case_variant_verbatim:
  assumes "has_segment n" and "tokens n = pre @ t # post" and "set pre \<subseteq> set exclude_teams"
    and "(c, full) \<in> set country_mapping" and "py_lower t = py_lower c" and "t \<noteq> c"
  shows "get_country_from_name n = Inr t"
proof -
  have u: "map_of country_mapping t = None" and x: "t \<notin> set exclude_teams"
    using case_variant_unmapped [OF assms(4,5,6)] by simp_all
  have "filter (\<lambda>t. t \<notin> set exclude_teams) pre = []"
    using assms(3) by (auto simp: filter_empty_conv)
  then have "surviving n = t # filter (\<lambda>t. t \<notin> set exclude_teams) post"
    using x by (simp add: surviving_def assms(2))
  then show ?thesis
    using assms(1) u by (simp add: get_country_from_name_eq country_spec_def resolve_token_def)
qed

lemma fallback_case_insensitive:
  assumes "\<not> has_segment n" and "\<not> has_segment n'" and "py_lower n = py_lower n'"
  shows "get_country_from_name n = get_country_from_name n'"
  using assms by (simp add: get_country_from_name_eq country_spec_def fallback_lower [of n n'])

text \<open>
  C10: the lookup of a parenthesized token in the table of codes respects letter case: a
  token that is a code of the table up to letter case, but not that code itself, is returned
  as it stands when it is the first token outside the exclusion set. The fallback on a
  name without a segment ignores letter case: two such names that are equal up to letter
  case get the same country.
\<close>

theorem lookup_case_sensitive:
  "(has_segment n \<and> tokens n = pre @ t # post \<and> set pre \<subseteq> set exclude_teams
      \<and> (c, full) \<in> set country_mapping \<and> py_lower t = py_lower c \<and> t \<noteq> c
      \<longrightarrow> get_country_from_name n = Inr t)
   \<and> (\<not> has_segment m \<and> \<not> has_segment m' \<and> py_lower m = py_lower m'
      \<longrightarrow> get_country_from_name m = get_country_from_name m')
   \<and> get_country_from_name ''X (AUS)'' = Inr ''Australia''
   \<and> get_country_from_name ''X (Aus)'' = Inr ''Aus''
   \<and> get_country_from_name ''X (aus)'' = Inr ''aus''
   \<and> get_country_from_name ''x of AUSTRALIA'' = Inr ''Australia''"
  using case_variant_verbatim [of n pre t post c full] fallback_case_insensitive [of m m']
    country_examples(5,6,7,8)
  by blast

lemma tokens_ex: "tokens ''X (Aus)'' = [] @ ''Aus'' # []"
  by (simp add: tokens_def segment_def py_strip_def is_space_def)

lemma lower_ex: "py_lower ''Aus'' = py_lower ''AUS''" "py_lower ''x of AUSTRALIA'' = py_lower ''X of Australia''"
  by code_simp+

theorem lookup_case_sensitive_witness:
  "has_segment ''X (Aus)'' \<and> tokens ''X (Aus)'' = [] @ ''Aus'' # [] \<and> set [] \<subseteq> set exclude_teams
   \<and> (''AUS'', ''Australia'') \<in> set country_mapping \<and> py_lower ''Aus'' = py_lower ''AUS'' \<and> ''Aus'' \<noteq> ''AUS''
   \<and> get_country_from_name ''X (Aus)'' = Inr ''Aus''
   \<and> \<not> has_segment ''x of AUSTRALIA'' \<and> \<not> has_segment ''X of Australia''
   \<and> py_lower ''x of AUSTRALIA'' = py_lower ''X of Australia''
   \<and> get_country_from_name ''x of AUSTRALIA'' = get_country_from_name ''X of Australia''"
proof -
  have h: "has_segment ''X (Aus)''" "\<not> has_segment ''x of AUSTRALIA''" "\<not> has_segment ''X of Australia''"
    by (simp_all add: has_segment_def)
  have m: "(''AUS'', ''Australia'') \<in> set country_mapping"
    by (simp add: country_mapping_def)
  have d: "''Aus'' \<noteq> ''AUS''" by simp
  have e: "set [] \<subseteq> set exclude_teams" by simp
  show ?thesis
    using lookup_case_sensitive [of "''X (Aus)''" "[]" "''Aus''" "[]" "''AUS''" "''Australia''"
        "''x of AUSTRALIA''" "''X of Australia''"]
      h m d e tokens_ex lower_ex
    by blast
qed

section \<open>Properties of the aggregator\<close>

lemma py_sort_reverse_sorted: "sorted_wrt (\<lambda>a b. k a \<ge> k b) (py_sort_reverse k xs)"
proof -
  have "sorted (map k (sort_key k (rev xs)))" by (rule sorted_sort_key)
  then have "sorted_wrt (\<lambda>a b. k a \<le> k b) (sort_key k (rev xs))"
    by (simp add: sorted_map)
  then show ?thesis
    by (simp add: py_sort_reverse_def sorted_wrt_rev)
qed

lemma py_sort_reverse_stable:
  "filter (\<lambda>y. k y = v) (py_sort_reverse k xs) = filter (\<lambda>y. k y = v) xs"
  by (simp add: py_sort_reverse_def sort_key_stable rev_filter [symmetric])

lemma py_sort_reverse_mset: "mset (py_sort_reverse k xs) = mset xs"
  by (simp add: py_sort_reverse_def)

lemma num_val_py_add: "num_val (py_add a b) = num_val a + num_val b"
  by (cases a; cases b) simp_all

lemma num_val_py_mul: "num_val (py_mul a b) = num_val a * num_val b"
  by (cases a; cases b) simp_all

lemma sort_value_eq: "sort_value p = num_val (runs p) + num_val (wickets p) * 50"
  by (simp add: sort_value_def num_val_py_add num_val_py_mul)

lemma and_then_simps: "and_then (Inr x) k = k x" "and_then (Inl e) k = Inl e"
  by (simp_all add: and_then_def)

lemma batting_step_eq:
  "batting_step fs r (tr, tm, a, s) =
     Inr (if r = [] then (tr, tm, a, s)
          else (py_add tr (cleaned fs r ''Runs''), py_add tm (cleaned fs r ''Mat''),
                (if num_val a = 0 \<and> py_truthy (dict_get r ''Ave'' CNone) then cleaned fs r ''Ave'' else a),
                (if \<not> py_truthy s \<and> span_truthy r then dict_get r ''Span'' (CStr '''') else s)))"
  by (simp add: batting_step_def clean_numeric_value_eq and_then_simps cleaned_def span_truthy_def)

lemma bowling_step_eq:
  "bowling_step fs r (tw, tm, a) =
     Inr (if r = [] then (tw, tm, a)
          else (py_add tw (cleaned fs r ''Wkts''), py_add tm (cleaned fs r ''Mat''),
                (if num_val a = 0 \<and> py_truthy (dict_get r ''Ave'' CNone) then cleaned fs r ''Ave'' else a)))"
  by (simp add: bowling_step_def clean_numeric_value_eq and_then_simps cleaned_def)

lemma fielding_step_eq:
  "fielding_step fs r (td, ts) =
     Inr (if r = [] then (td, ts)
          else (py_add td (cleaned fs r ''Dis''), py_add ts (cleaned fs r ''St'')))"
  by (simp add: fielding_step_def clean_numeric_value_eq and_then_simps cleaned_def)

lemma span_get: "span_truthy r \<Longrightarrow> dict_get r ''Span'' (CStr '''') = dict_get r ''Span'' CNone"
  by (auto simp: span_truthy_def dict_get_def split: option.splits)

lemma batting_loop:
  "\<exists>a' s'. py_for L (\<lambda>f. batting_step fs (d f)) (tr, tm, a, s) =
      Inr (foldl py_add tr (map (\<lambda>f. cleaned fs (d f) ''Runs'') (filter (\<lambda>f. d f \<noteq> []) L)),
           foldl py_add tm (map (\<lambda>f. cleaned fs (d f) ''Mat'') (filter (\<lambda>f. d f \<noteq> []) L)),
           a', s')
      \<and> ave_post fs d L a a' \<and> span_post d L s s'"
proof (induction L arbitrary: tr tm a s)
  case Nil
  then show ?case by (simp add: ave_post_def span_post_def)
next
  case (Cons f L)
  show ?case
  proof (cases "d f = []")
    case True
    then have "ave_post fs d (f # L) a = ave_post fs d L a" "span_post d (f # L) s = span_post d L s"
      by (simp_all add: ave_post_def span_post_def fun_eq_iff)
    then show ?thesis
      using Cons [of tr tm a s] True
      by (simp add: batting_step_eq and_then_simps)
  next
    case False
    define a1 where "a1 = (if num_val a = 0 \<and> py_truthy (dict_get (d f) ''Ave'' CNone) then cleaned fs (d f) ''Ave'' else a)"
    define s1 where "s1 = (if \<not> py_truthy s \<and> span_truthy (d f) then dict_get (d f) ''Span'' (CStr '''') else s)"
    obtain a' s' where r: "py_for L (\<lambda>f. batting_step fs (d f))
         (py_add tr (cleaned fs (d f) ''Runs''), py_add tm (cleaned fs (d f) ''Mat''), a1, s1) =
      Inr (foldl py_add (py_add tr (cleaned fs (d f) ''Runs'')) (map (\<lambda>f. cleaned fs (d f) ''Runs'') (filter (\<lambda>f. d f \<noteq> []) L)),
           foldl py_add (py_add tm (cleaned fs (d f) ''Mat'')) (map (\<lambda>f. cleaned fs (d f) ''Mat'') (filter (\<lambda>f. d f \<noteq> []) L)),
           a', s')" and pa: "ave_post fs d L a1 a'" and ps: "span_post d L s1 s'"
      using Cons [of "py_add tr (cleaned fs (d f) ''Runs'')" "py_add tm (cleaned fs (d f) ''Mat'')" a1 s1]
      by blast
    have A: "ave_post fs d (f # L) a a'"
      using pa False unfolding ave_post_def a1_def ave_nonzero_def
      by (auto split: if_splits list.splits)
    have S: "span_post d (f # L) s s'"
      using ps False span_get [of "d f"] unfolding span_post_def s1_def
      by (auto split: if_splits list.splits simp: span_truthy_def)
    show ?thesis
      using r A S False
      by (simp add: batting_step_eq and_then_simps a1_def s1_def)
  qed
qed

lemma bowling_loop:
  "\<exists>a'. py_for L (\<lambda>f. bowling_step fs (d f)) (tw, tm, a) =
      Inr (foldl py_add tw (map (\<lambda>f. cleaned fs (d f) ''Wkts'') (filter (\<lambda>f. d f \<noteq> []) L)),
           foldl py_add tm (map (\<lambda>f. cleaned fs (d f) ''Mat'') (filter (\<lambda>f. d f \<noteq> []) L)),
           a')
      \<and> ave_post fs d L a a'"
proof (induction L arbitrary: tw tm a)
  case Nil
  then show ?case by (simp add: ave_post_def)
next
  case (Cons f L)
  show ?case
  proof (cases "d f = []")
    case True
    then have "ave_post fs d (f # L) a = ave_post fs d L a"
      by (simp add: ave_post_def fun_eq_iff)
    then show ?thesis
      using Cons [of tw tm a] True
      by (simp add: bowling_step_eq and_then_simps)
  next
    case False
    define a1 where "a1 = (if num_val a = 0 \<and> py_truthy (dict_get (d f) ''Ave'' CNone) then cleaned fs (d f) ''Ave'' else a)"
    obtain a' where r: "py_for L (\<lambda>f. bowling_step fs (d f))
         (py_add tw (cleaned fs (d f) ''Wkts''), py_add tm (cleaned fs (d f) ''Mat''), a1) =
      Inr (foldl py_add (py_add tw (cleaned fs (d f) ''Wkts'')) (map (\<lambda>f. cleaned fs (d f) ''Wkts'') (filter (\<lambda>f. d f \<noteq> []) L)),
           foldl py_add (py_add tm (cleaned fs (d f) ''Mat'')) (map (\<lambda>f. cleaned fs (d f) ''Mat'') (filter (\<lambda>f. d f \<noteq> []) L)),
           a')" and pa: "ave_post fs d L a1 a'"
      using Cons [of "py_add tw (cleaned fs (d f) ''Wkts'')" "py_add tm (cleaned fs (d f) ''Mat'')" a1]
      by blast
    have A: "ave_post fs d (f # L) a a'"
      using pa False unfolding ave_post_def a1_def ave_nonzero_def
      by (auto split: if_splits list.splits)
    show ?thesis
      using r A False
      by (simp add: bowling_step_eq and_then_simps a1_def)
  qed
qed

lemma fielding_loop:
  "py_for L (\<lambda>f. fielding_step fs (d f)) (td, ts) =
      Inr (foldl py_add td (map (\<lambda>f. cleaned fs (d f) ''Dis'') (filter (\<lambda>f. d f \<noteq> []) L)),
           foldl py_add ts (map (\<lambda>f. cleaned fs (d f) ''St'') (filter (\<lambda>f. d f \<noteq> []) L)))"
  by (induction L arbitrary: td ts) (simp_all add: fielding_step_eq and_then_simps)

lemma ave_post_first:
  "ave_post fs d L (PInt 0) a' \<Longrightarrow>
   (case (case filter (\<lambda>f. ave_nonzero fs (d f)) (filter (\<lambda>f. d f \<noteq> []) L) of
            [] \<Rightarrow> None | f # rest \<Rightarrow> Some f) of
      None \<Rightarrow> num_val a' = 0
    | Some f \<Rightarrow> a' = cleaned fs (d f) ''Ave'')"
  by (simp add: ave_post_def split: list.splits)

lemma span_post_first:
  "span_post d L (CStr '''') s' \<Longrightarrow>
   (case (case filter (\<lambda>f. span_truthy (d f)) (filter (\<lambda>f. d f \<noteq> []) L) of
            [] \<Rightarrow> None | f # rest \<Rightarrow> Some f) of
      None \<Rightarrow> s' = CStr ''''
    | Some f \<Rightarrow> s' = dict_get (d f) ''Span'' CNone)"
  by (simp add: span_post_def split: list.splits)

lemma combine_batting_eq:
  "\<exists>a' s'. combine_batting fs data =
      Inr (total_of fs data Batting ''Runs'', total_of fs data Batting ''Mat'', a', s')
    \<and> (case first_format (ave_nonzero fs) data Batting of
         None \<Rightarrow> num_val a' = 0
       | Some f \<Rightarrow> a' = cleaned fs (data Batting f) ''Ave'')
    \<and> (case first_format span_truthy data Batting of
         None \<Rightarrow> s' = CStr ''''
       | Some f \<Rightarrow> s' = dict_get (data Batting f) ''Span'' CNone)"
proof -
  obtain a' s' where r: "py_for [Test, ODI, T20] (\<lambda>f. batting_step fs (data Batting f)) (PInt 0, PInt 0, PInt 0, CStr '''') =
      Inr (foldl py_add (PInt 0) (map (\<lambda>f. cleaned fs (data Batting f) ''Runs'') (filter (\<lambda>f. data Batting f \<noteq> []) [Test, ODI, T20])),
           foldl py_add (PInt 0) (map (\<lambda>f. cleaned fs (data Batting f) ''Mat'') (filter (\<lambda>f. data Batting f \<noteq> []) [Test, ODI, T20])),
           a', s')"
    and pa: "ave_post fs (data Batting) [Test, ODI, T20] (PInt 0) a'"
    and ps: "span_post (data Batting) [Test, ODI, T20] (CStr '''') s'"
    using batting_loop [of "[Test, ODI, T20]" fs "data Batting" "PInt 0" "PInt 0" "PInt 0" "CStr ''''"]
    by blast
  have e: "combine_batting fs data = Inr (total_of fs data Batting ''Runs'', total_of fs data Batting ''Mat'', a', s')"
    unfolding combine_batting_def total_of_def present_def using r by simp
  have A: "case first_format (ave_nonzero fs) data Batting of
         None \<Rightarrow> num_val a' = 0
       | Some f \<Rightarrow> a' = cleaned fs (data Batting f) ''Ave''"
    using ave_post_first [OF pa] unfolding first_format_def present_def .
  have S: "case first_format span_truthy data Batting of
         None \<Rightarrow> s' = CStr ''''
       | Some f \<Rightarrow> s' = dict_get (data Batting f) ''Span'' CNone"
    using span_post_first [OF ps] unfolding first_format_def present_def .
  show ?thesis using e A S by blast
qed

lemma combine_bowling_eq:
  "\<exists>a'. combine_bowling fs data =
      Inr (total_of fs data Bowling ''Wkts'', total_of fs data Bowling ''Mat'', a')
    \<and> (case first_format (ave_nonzero fs) data Bowling of
         None \<Rightarrow> num_val a' = 0
       | Some f \<Rightarrow> a' = cleaned fs (data Bowling f) ''Ave'')"
proof -
  obtain a' where r: "py_for [Test, ODI, T20] (\<lambda>f. bowling_step fs (data Bowling f)) (PInt 0, PInt 0, PInt 0) =
      Inr (foldl py_add (PInt 0) (map (\<lambda>f. cleaned fs (data Bowling f) ''Wkts'') (filter (\<lambda>f. data Bowling f \<noteq> []) [Test, ODI, T20])),
           foldl py_add (PInt 0) (map (\<lambda>f. cleaned fs (data Bowling f) ''Mat'') (filter (\<lambda>f. data Bowling f \<noteq> []) [Test, ODI, T20])),
           a')"
    and pa: "ave_post fs (data Bowling) [Test, ODI, T20] (PInt 0) a'"
    using bowling_loop [of "[Test, ODI, T20]" fs "data Bowling" "PInt 0" "PInt 0" "PInt 0"]
    by blast
  have e: "combine_bowling fs data = Inr (total_of fs data Bowling ''Wkts'', total_of fs data Bowling ''Mat'', a')"
    unfolding combine_bowling_def total_of_def present_def using r by simp
  have A: "case first_format (ave_nonzero fs) data Bowling of
         None \<Rightarrow> num_val a' = 0
       | Some f \<Rightarrow> a' = cleaned fs (data Bowling f) ''Ave''"
    using ave_post_first [OF pa] unfolding first_format_def present_def .
  show ?thesis using e A by blast
qed

lemma combine_fielding_eq:
  "combine_fielding fs data = Inr (total_of fs data Fielding ''Dis'', total_of fs data Fielding ''St'')"
  unfolding combine_fielding_def total_of_def present_def by (rule fielding_loop)

lemma num_val_foldl_py_add: "num_val (foldl py_add a xs) = num_val a + sum_list (map num_val xs)"
  by (induction xs arbitrary: a) (simp_all add: num_val_py_add)

lemma num_val_total_of:
  "num_val (total_of fs data c k) = (\<Sum>f\<leftarrow>present data c. num_val (cleaned fs (data c f) k))"
  by (simp add: total_of_def num_val_foldl_py_add comp_def)


lemma clean_name_total:
  "(if py_in ''('' n then and_then (py_index (py_split (CHR ''('') n) 0) (\<lambda>x. Inr (py_strip x)) else Inr n)
   = Inr (if CHR ''('' \<in> set n then py_strip (takeWhile (\<lambda>x. x \<noteq> CHR ''('') n) else n)"
  by (simp add: py_in_single py_split_index_0 and_then_simps)

lemma process_player_eq:
  assumes b: "combine_batting fs data = Inr (tr, tmb, ba, sp)"
    and w: "combine_bowling fs data = Inr (tw, tmw, bwa)"
  shows "process_player fs n data =
     Inr (if excluded (py_max tmb tmw) tr tw then None
          else Some \<lparr>name = (if CHR ''('' \<in> set n then py_strip (takeWhile (\<lambda>x. x \<noteq> CHR ''('') n) else n),
                     country = country_spec n,
                     role = determine_role [(''Runs'', tr), (''Mat'', tmb), (''Ave'', ba)]
                              [(''Wkts'', tw), (''Mat'', tmw), (''Ave'', bwa)]
                              [(''Dis'', total_of fs data Fielding ''Dis''), (''St'', total_of fs data Fielding ''St'')],
                     matches = py_max tmb tmw, runs = tr, wickets = tw,
                     average = (if num_val ba > 0 then ba
                                else if determine_role [(''Runs'', tr), (''Mat'', tmb), (''Ave'', ba)]
                                      [(''Wkts'', tw), (''Mat'', tmw), (''Ave'', bwa)]
                                      [(''Dis'', total_of fs data Fielding ''Dis''), (''St'', total_of fs data Fielding ''St'')] = ''Bowler''
                                     then bwa else PInt 0),
                     era = era_spec fs sp\<rparr>)"
  unfolding process_player_def b w combine_fielding_eq
  by (simp add: and_then_simps clean_name_total get_country_from_name_eq determine_era_eq
      excluded_def dict_get_def Let_def)

lemma set_convert_players:
  "set (convert_players fs pd) = {p. \<exists>n d. (n, d) \<in> set pd \<and> process_player fs n d = Inr (Some p)}"
proof (induction pd)
  case Nil
  then show ?case by simp
next
  case (Cons a pd)
  obtain n d where a: "a = (n, d)" by (cases a)
  show ?case
    unfolding a using Cons
    by (cases "process_player fs n d") (auto split: option.splits)
qed

lemma set_process_cricket_data:
  "set (process_cricket_data fs files) =
     {p. \<exists>n d. (n, d) \<in> set (load_files fs files) \<and> process_player fs n d = Inr (Some p)}"
  by (simp add: process_cricket_data_def py_sort_reverse_def set_convert_players)

text \<open>The definitions that evaluate the aggregator on a concrete input.\<close>

lemmas eval_defs = combine_batting_def combine_bowling_def combine_fielding_def batting_step_def
  bowling_step_def fielding_step_def and_then_def test_only_def row_of_def dict_get_def
  clean_numeric_value_def py_strip_def remove_char_def keep_digits_dots_def
  is_digit_def is_space_def clean_parse_def py_float_def py_int_def digits_val_def
  str_int_def digit_char_def

lemma excluded_iff: "excluded m r w \<longleftrightarrow> num_val m < 100"
  by (auto simp: excluded_def)




lemmas load_defs = load_files_def load_file_def load_row_def example_files_def named_row_def
  new_player_def py_strip_def is_space_def dict_get_def

lemma example_convert:
  "map (\<lambda>p. (name p, sort_value p)) (convert_players fs (load_files fs example_files))
     = [(''P'', 5000), (''Q'', 5000), (''R'', 6000)]"
  by (simp add: load_defs process_player_def eval_defs get_country_from_name_eq determine_era_eq
      py_max_def py_in_single py_index_def sort_value_def Let_def)

text \<open>
  C8: the list that \<^verbatim>\<open>process_cricket_data\<close> returns is in descending order of the key
  runs + wickets * 50; it holds the appended records, each as often as it was appended; and
  the records of one key stand in the order in which they were appended.
\<close>

theorem final_order_sorted_stable:
  "sorted_wrt (\<lambda>a b. sort_value a \<ge> sort_value b) (process_cricket_data fs files)
   \<and> (\<forall>v. filter (\<lambda>p. sort_value p = v) (process_cricket_data fs files)
          = filter (\<lambda>p. sort_value p = v) (convert_players fs (load_files fs files)))
   \<and> mset (process_cricket_data fs files) = mset (convert_players fs (load_files fs files))
   \<and> (\<forall>p. sort_value p = num_val (runs p) + num_val (wickets p) * 50)"
  unfolding process_cricket_data_def
  using py_sort_reverse_sorted [of sort_value] py_sort_reverse_stable [of sort_value]
    py_sort_reverse_mset [of sort_value] sort_value_eq
  by blast

theorem final_order_sorted_stable_witness:
  "map (\<lambda>p. (name p, sort_value p)) (convert_players (\<lambda>r. []) (load_files (\<lambda>r. []) example_files))
     = [(''P'', 5000), (''Q'', 5000), (''R'', 6000)]
   \<and> map (\<lambda>p. (name p, sort_value p)) (process_cricket_data (\<lambda>r. []) example_files)
     = [(''R'', 6000), (''P'', 5000), (''Q'', 5000)]
   \<and> sorted_wrt (\<lambda>a b. sort_value a \<ge> sort_value b) (process_cricket_data (\<lambda>r. []) example_files)"
proof -
  obtain P Q R where c: "convert_players (\<lambda>r. []) (load_files (\<lambda>r. []) example_files) = [P, Q, R]"
    and v: "(name P, sort_value P) = (''P'', 5000)" "(name Q, sort_value Q) = (''Q'', 5000)"
      "(name R, sort_value R) = (''R'', 6000)"
    using example_convert [of "\<lambda>r. []"] by auto
  have "process_cricket_data (\<lambda>r. []) example_files = [R, P, Q]"
    using v by (simp add: process_cricket_data_def c py_sort_reverse_def)
  then show ?thesis
    using final_order_sorted_stable [of "\<lambda>r. []" example_files] example_convert [of "\<lambda>r. []"] v
    by simp
qed

lemma process_player_average:
  assumes "process_player fs n data = Inr (Some p)"
  shows "\<exists>tr tmb ba sp tw tmw bwa.
      combine_batting fs data = Inr (tr, tmb, ba, sp) \<and> combine_bowling fs data = Inr (tw, tmw, bwa)
    \<and> average p = (if num_val ba > 0 then ba else if role p = ''Bowler'' then bwa else PInt 0)"
proof -
  obtain tr tmb ba sp where b: "combine_batting fs data = Inr (tr, tmb, ba, sp)"
    using combine_batting_eq [of fs data] by blast
  obtain tw tmw bwa where w: "combine_bowling fs data = Inr (tw, tmw, bwa)"
    using combine_bowling_eq [of fs data] by blast
  have "average p = (if num_val ba > 0 then ba else if role p = ''Bowler'' then bwa else PInt 0)"
    using assms unfolding process_player_eq [OF b w, of n]
    by (auto split: if_splits)
  then show ?thesis using b w by blast
qed

text \<open>
  C7: the field \<^verbatim>\<open>average\<close> of the record of a player is the combined batting average
  when that is above 0; otherwise it is the combined bowling average when the role of the
  record is Bowler; otherwise it is 0. This holds for the record that \<^verbatim>\<open>process_player\<close>
  builds, and so for every record of the output.
\<close>

theorem average_field:
  "(process_player fs n data = Inr (Some p) \<longrightarrow>
     (\<exists>tr tmb ba sp tw tmw bwa.
        combine_batting fs data = Inr (tr, tmb, ba, sp) \<and> combine_bowling fs data = Inr (tw, tmw, bwa)
      \<and> average p = (if num_val ba > 0 then ba else if role p = ''Bowler'' then bwa else PInt 0)))
   \<and> (q \<in> set (process_cricket_data fs files) \<longrightarrow>
     (\<exists>m d tr tmb ba sp tw tmw bwa.
        (m, d) \<in> set (load_files fs files) \<and> process_player fs m d = Inr (Some q)
      \<and> combine_batting fs d = Inr (tr, tmb, ba, sp) \<and> combine_bowling fs d = Inr (tw, tmw, bwa)
      \<and> average q = (if num_val ba > 0 then ba else if role q = ''Bowler'' then bwa else PInt 0)))"
proof -
  have 1: "process_player fs n data = Inr (Some p) \<longrightarrow>
     (\<exists>tr tmb ba sp tw tmw bwa.
        combine_batting fs data = Inr (tr, tmb, ba, sp) \<and> combine_bowling fs data = Inr (tw, tmw, bwa)
      \<and> average p = (if num_val ba > 0 then ba else if role p = ''Bowler'' then bwa else PInt 0))"
    using process_player_average [of fs n data p] by blast
  have 2: "q \<in> set (process_cricket_data fs files) \<longrightarrow>
     (\<exists>m d tr tmb ba sp tw tmw bwa.
        (m, d) \<in> set (load_files fs files) \<and> process_player fs m d = Inr (Some q)
      \<and> combine_batting fs d = Inr (tr, tmb, ba, sp) \<and> combine_bowling fs d = Inr (tw, tmw, bwa)
      \<and> average q = (if num_val ba > 0 then ba else if role q = ''Bowler'' then bwa else PInt 0))"
  proof
    assume "q \<in> set (process_cricket_data fs files)"
    then obtain m d where md: "(m, d) \<in> set (load_files fs files)" "process_player fs m d = Inr (Some q)"
      unfolding set_process_cricket_data by blast
    then show "\<exists>m d tr tmb ba sp tw tmw bwa.
        (m, d) \<in> set (load_files fs files) \<and> process_player fs m d = Inr (Some q)
      \<and> combine_batting fs d = Inr (tr, tmb, ba, sp) \<and> combine_bowling fs d = Inr (tw, tmw, bwa)
      \<and> average q = (if num_val ba > 0 then ba else if role q = ''Bowler'' then bwa else PInt 0)"
      using process_player_average [OF md(2)] by blast
  qed
  show ?thesis using 1 2 by blast
qed

lemma country_A: "get_country_from_name ''A (AUS)'' = Inr ''Australia''"
  by code_simp

lemma end_to_end_player:
  "process_player (\<lambda>r. ''40.5'') ''A (AUS)''
     (test_only (row_of (CInt 5000) (CInt 150) (CFloat (81 / 2)) (CStr ''2000-2015''))) =
   Inr (Some \<lparr>name = ''A'', country = ''Australia'', role = ''Batsman'', matches = PInt 150,
      runs = PInt 5000, wickets = PInt 0, average = PFloat (81 / 2), era = ''Modern''\<rparr>)"
  by (simp add: process_player_def eval_defs country_A determine_era_def determine_role_def
      py_max_def py_in_single py_index_def Let_def)

lemma end_to_end_example:
  "process_cricket_data (\<lambda>r. ''40.5'') end_to_end_files =
   [\<lparr>name = ''A'', country = ''Australia'', role = ''Batsman'', matches = PInt 150,
      runs = PInt 5000, wickets = PInt 0, average = PFloat (81 / 2), era = ''Modern''\<rparr>]"
proof -
  have "load_files (\<lambda>r. ''40.5'') end_to_end_files =
      [(''A (AUS)'', new_player(Batting := (new_player Batting)
          (Test := row_of (CInt 5000) (CInt 150) (CFloat (81 / 2)) (CStr ''2000-2015''))))]"
    by (simp add: load_files_def load_file_def load_row_def end_to_end_files_def row_of_def
        py_strip_def is_space_def dict_get_def Let_def)
  moreover have "new_player(Batting := (new_player Batting)
          (Test := row_of (CInt 5000) (CInt 150) (CFloat (81 / 2)) (CStr ''2000-2015'')))
      = test_only (row_of (CInt 5000) (CInt 150) (CFloat (81 / 2)) (CStr ''2000-2015''))"
    by (auto simp: fun_eq_iff new_player_def test_only_def)
  ultimately show ?thesis
    by (simp add: process_cricket_data_def py_sort_reverse_def end_to_end_player)
qed

theorem average_field_witness:
  "\<lparr>name = ''A'', country = ''Australia'', role = ''Batsman'', matches = PInt 150,
      runs = PInt 5000, wickets = PInt 0, average = PFloat (81 / 2), era = ''Modern''\<rparr>
     \<in> set (process_cricket_data (\<lambda>r. ''40.5'') end_to_end_files)
   \<and> (\<exists>m d tr tmb ba sp tw tmw bwa.
        (m, d) \<in> set (load_files (\<lambda>r. ''40.5'') end_to_end_files)
      \<and> combine_batting (\<lambda>r. ''40.5'') d = Inr (tr, tmb, ba, sp)
      \<and> combine_bowling (\<lambda>r. ''40.5'') d = Inr (tw, tmw, bwa)
      \<and> PFloat (81 / 2) = (if num_val ba > 0 then ba else PInt 0))"
proof -
  let ?p = "\<lparr>name = ''A'', country = ''Australia'', role = ''Batsman'', matches = PInt 150,
      runs = PInt 5000, wickets = PInt 0, average = PFloat (81 / 2), era = ''Modern''\<rparr>"
  have m: "?p \<in> set (process_cricket_data (\<lambda>r. ''40.5'') end_to_end_files)"
    by (simp add: end_to_end_example)
  then obtain m d tr tmb ba sp tw tmw bwa where
      f1: "(m, d) \<in> set (load_files (\<lambda>r. ''40.5'') end_to_end_files)"
      and f2: "combine_batting (\<lambda>r. ''40.5'') d = Inr (tr, tmb, ba, sp)"
      and f3: "combine_bowling (\<lambda>r. ''40.5'') d = Inr (tw, tmw, bwa)"
      and f4: "average ?p = (if num_val ba > 0 then ba else if role ?p = ''Bowler'' then bwa else PInt 0)"
    using average_field [of "\<lambda>r. ''40.5''" "''A (AUS)''" "test_only []" ?p ?p end_to_end_files]
    by blast
  have "role ?p \<noteq> ''Bowler''" "average ?p = PFloat (81 / 2)"
    by simp_all
  with f4 have "PFloat (81 / 2) = (if num_val ba > 0 then ba else PInt 0)"
    by presburger
  then show ?thesis using m f1 f2 f3 by blast
qed

text \<open>
  What the merge of the formats does on every player: the totals are the sums of the cleaned
  values over the formats present; each average is the cleaned average of the first format
  present, in the order Test, ODI, T20, whose average is nonzero, and has the value 0 when
  there is none; the span is the cell \<^verbatim>\<open>Span\<close> of the first format present whose cell
  is true as a condition, and the empty string when there is none.
\<close>

lemma merge_priority:
  "\<exists>ba sp bwa.
     combine_batting fs data =
       Inr (total_of fs data Batting ''Runs'', total_of fs data Batting ''Mat'', ba, sp)
   \<and> combine_bowling fs data =
       Inr (total_of fs data Bowling ''Wkts'', total_of fs data Bowling ''Mat'', bwa)
   \<and> (case first_format (ave_nonzero fs) data Batting of
         None \<Rightarrow> num_val ba = 0
       | Some f \<Rightarrow> ba = cleaned fs (data Batting f) ''Ave'')
   \<and> (case first_format (ave_nonzero fs) data Bowling of
         None \<Rightarrow> num_val bwa = 0
       | Some f \<Rightarrow> bwa = cleaned fs (data Bowling f) ''Ave'')
   \<and> (case first_format span_truthy data Batting of
         None \<Rightarrow> sp = CStr ''''
       | Some f \<Rightarrow> sp = dict_get (data Batting f) ''Span'' CNone)"
  using combine_batting_eq [of fs data] combine_bowling_eq [of fs data] by blast

lemma first_format_Test:
  "data c Test \<noteq> [] \<Longrightarrow> P (data c Test) \<Longrightarrow> first_format P data c = Some Test"
  by (simp add: first_format_def present_def)

lemma test_average_wins:
  assumes "data Batting Test \<noteq> []" and "ave_nonzero fs (data Batting Test)"
    and "combine_batting fs data = Inr (tr, tm, ba, sp)"
  shows "ba = cleaned fs (data Batting Test) ''Ave''"
proof -
  have "first_format (ave_nonzero fs) data Batting = Some Test"
    using assms(1,2) by (simp add: first_format_def present_def)
  then show ?thesis
    using merge_priority [of fs data] assms(3) by auto
qed

lemma falsy_cleans_to_zero:
  assumes "num_val (normalize_spec fs (CFloat 0)) = 0" and "\<not> py_truthy c"
  shows "num_val (normalize_spec fs c) = 0"
proof (cases c)
  case CNone
  then show ?thesis by (simp add: normalize_spec_def)
next
  case CNaN
  then show ?thesis using assms(2) by simp
next
  case (CBool x)
  then have "c = CBool False" using assms(2) by simp
  then show ?thesis
    by (simp add: normalize_spec_def keep_digits_dots_def remove_char_def py_strip_def
        is_digit_def is_space_def digits_val_def)
next
  case (CInt i)
  then have "c = CInt 0" using assms(2) by simp
  then show ?thesis
    by (simp add: normalize_spec_def keep_digits_dots_def remove_char_def py_strip_def
        str_int_def digit_char_def is_digit_def is_space_def digits_val_def)
next
  case (CFloat r)
  then have "c = CFloat 0" using assms(2) by simp
  then show ?thesis using assms(1) by simp
next
  case (CStr x)
  then have "c = CStr []" using assms(2) by simp
  then show ?thesis by (simp add: normalize_spec_def)
qed

lemma ave_nonzero_iff:
  assumes "num_val (normalize_spec fs (CFloat 0)) = 0"
  shows "ave_nonzero fs r \<longleftrightarrow> num_val (cleaned fs r ''Ave'') \<noteq> 0"
proof (cases "map_of r ''Ave''")
  case None
  then have "dict_get r ''Ave'' CNone = CNone" "dict_get r ''Ave'' (CInt 0) = CInt 0"
    by (simp_all add: dict_get_def)
  moreover have "num_val (normalize_spec fs (CInt 0)) = 0"
    using falsy_cleans_to_zero [OF assms, of "CInt 0"] by simp
  ultimately show ?thesis by (simp add: ave_nonzero_def cleaned_def)
next
  case (Some c)
  then have e: "dict_get r ''Ave'' CNone = c" "dict_get r ''Ave'' (CInt 0) = c"
    by (simp_all add: dict_get_def)
  show ?thesis
    using falsy_cleans_to_zero [OF assms, of c] by (auto simp: ave_nonzero_def cleaned_def e)
qed

text \<open>
  C2: when the rows of a player are merged, the batting average, the bowling average and the
  career span are each taken from the first format, in the order Test, ODI, T20, whose
  average is nonzero (whose span is not empty), later formats not overwriting it, and the
  totals are the sums of the cleaned values over the formats present. For the averages and
  the totals this is \<open>merge_priority\<close> and \<open>test_average_wins\<close>. For the span it fails
  on a player whose Test row has an empty span cell (\<^verbatim>\<open>nan\<close>, which is true as a
  condition) and whose ODI row has the span 2000-2015: the first format with a span is ODI,
  but the merged span is the empty cell of the Test row, and the era of the record is
  Unknown, where the span of the ODI row gives Modern.
\<close>

theorem merge_span_missing_cell:
  "combine_batting fs two_formats = Inr (PInt 8000, PInt 320, PFloat (91 / 2), CNaN)
   \<and> first_format span_given two_formats Batting = Some ODI
   \<and> dict_get (two_formats Batting ODI) ''Span'' CNone = CStr ''2000-2015''
   \<and> (\<exists>p. process_player fs ''A (AUS)'' two_formats = Inr (Some p)
          \<and> matches p = PInt 320 \<and> era p = ''Unknown'')
   \<and> determine_era fs (CStr ''2000-2015'') = Inr ''Modern''"
proof -
  have b: "combine_batting fs two_formats = Inr (PInt 8000, PInt 320, PFloat (91 / 2), CNaN)"
    by (simp add: eval_defs two_formats_def)
  have w: "combine_bowling fs two_formats = Inr (PInt 0, PInt 0, PInt 0)"
    by (simp add: eval_defs two_formats_def)
  have f: "first_format span_given two_formats Batting = Some ODI"
    by (simp add: first_format_def present_def span_given_def two_formats_def row_of_def dict_get_def)
  have g: "dict_get (two_formats Batting ODI) ''Span'' CNone = CStr ''2000-2015''"
    by (simp add: two_formats_def row_of_def dict_get_def)
  have p: "\<exists>p. process_player fs ''A (AUS)'' two_formats = Inr (Some p)
          \<and> matches p = PInt 320 \<and> era p = ''Unknown''"
    unfolding process_player_eq [OF b w]
    by (simp add: excluded_def py_max_def era_spec_def)
  have e: "determine_era fs (CStr ''2000-2015'') = Inr ''Modern''"
    by (simp add: determine_era_def is_digit_def py_int_def digits_val_def)
  show ?thesis using b f g p e by blast
qed


end
